theory Spec2Isabelle
  imports Main "HOL-Library.Sublist"
begin

section \<open>Go values\<close>

text \<open>A Go \<open>string\<close> is a byte sequence, modelled as \<open>string\<close>.\<close>

text \<open>\<open>strings.Contains(s, substr)\<close>: \<open>substr\<close> occurs in \<open>s\<close> as a contiguous run.\<close>

fun Contains :: "string \<Rightarrow> string \<Rightarrow> bool" where
  "Contains [] substr = (substr = [])"
| "Contains (c # s) substr = (prefix substr (c # s) \<or> Contains s substr)"

text \<open>\<open>strings.Join(elems, sep)\<close>.\<close>

fun Join :: "string list \<Rightarrow> string \<Rightarrow> string" where
  "Join [] sep = []"
| "Join [x] sep = x"
| "Join (x # y # ys) sep = x @ sep @ Join (y # ys) sep"

text \<open>
  A \<open>time.Time\<close> is an instant, counted in nanoseconds from the zero time, so that
  \<open>t.IsZero()\<close> is \<open>t = 0\<close> and \<open>t.After(u)\<close> is \<open>u < t\<close>.
\<close>

type_synonym time = int

definition IsZero :: "time \<Rightarrow> bool" where
  "IsZero t \<longleftrightarrow> t = 0"

definition After :: "time \<Rightarrow> time \<Rightarrow> bool" where
  "After t u \<longleftrightarrow> u < t"

text \<open>
  A Go \<open>int\<close> is a 64-bit signed integer: the values are integers and the one addition that
  can overflow (\<open>filter.Offset+filter.Limit\<close>) wraps around through \<open>wrap64\<close>.
\<close>

definition wrap64 :: "int \<Rightarrow> int" where
  "wrap64 x = (x + 2 ^ 63) mod 2 ^ 64 - 2 ^ 63"

text \<open>Values a \<open>map[string]interface{}\<close> decoded from JSON can hold.\<close>

datatype jvalue =
    JNull
  | JBool bool
  | JNumber int
  | JString string
  | JArray "jvalue list"
  | JObject "(string \<times> jvalue) list"

type_synonym meta = "(string \<times> jvalue) list"

section \<open>Models (package models)\<close>

text \<open>
  \<open>json.RawMessage\<close> and \<open>map[string]interface{}\<close> fields can be \<open>nil\<close>: they are options,
  \<open>None\<close> being \<open>nil\<close>.
\<close>

record AuditLog =
  ID :: string
  TenantID :: string
  UserID :: string
  Resource :: string
  Event :: string
  Method :: string
  IP :: string
  Status :: string
  Data :: "string option"
  Environment :: string
  Meta :: "meta option"
  Timestamp :: time
  CreatedAt :: time
  UpdatedAt :: time

record CreateAuditLogRequest =
  req_TenantID :: string
  req_UserID :: string
  req_Resource :: string
  req_Event :: string
  req_Method :: string
  req_IP :: string
  req_Status :: string
  req_Data :: "string option"
  req_Environment :: string
  req_Meta :: "meta option"

record AuditLogFilter =
  f_TenantID :: string
  f_UserID :: string
  f_Resource :: string
  f_Event :: string
  f_Method :: string
  f_Status :: string
  f_Environment :: string
  f_StartDate :: time
  f_EndDate :: time
  f_Limit :: int
  f_Offset :: int

record PaginatedResponse =
  p_Data :: "AuditLog list"
  p_Total :: int
  p_Limit :: int
  p_Offset :: int
  p_HasMore :: bool


section \<open>Configuration (package config)\<close>

record AuditConfig =
  Enabled :: bool
  DefaultStatus :: string
  StatusValues :: "string list"
  ErrorStatus :: string

record EmailConfig =
  email_Enabled :: bool
  email_To :: "string list"

record SlackConfig =
  slack_Enabled :: bool
  slack_Channel :: string

record WebhookConfig =
  webhook_Enabled :: bool
  webhook_URLs :: "string list"

record NotificationConfig =
  Email :: EmailConfig
  Slack :: SlackConfig
  Webhook :: WebhookConfig

text \<open>The loop of \<open>IsValidStatus\<close> over \<open>c.StatusValues\<close>.\<close>

fun status_loop :: "string list \<Rightarrow> string \<Rightarrow> bool" where
  "status_loop [] status = False"
| "status_loop (validStatus # rest) status =
     (if validStatus = status then True else status_loop rest status)"

definition IsValidStatus :: "AuditConfig \<Rightarrow> string \<Rightarrow> bool" where
  "IsValidStatus c status =
     (if \<not> Enabled c then True else status_loop (StatusValues c) status)"

section \<open>The world outside the service\<close>

text \<open>
  What the code reads from or writes to its surroundings is explicit state:
  \<^item> \<open>clock\<close> gives the successive readings of the wall clock; \<open>reads\<close> counts the readings
    taken so far, so \<open>time.Now()\<close> returns \<open>clock w (reads w)\<close> and advances \<open>reads\<close>;
  \<^item> \<open>uuids\<close> gives the successive 128-bit identifiers of \<open>uuid.New()\<close>, \<open>draws\<close> counts them;
  \<^item> \<open>logs\<close> is the output of the logger, oldest entry first;
  \<^item> \<open>tasks\<close> lists the notification channels a task was started for (one entry for every
    \<open>wg.Add(1)\<close>), and \<open>outbox\<close> every call of a sender's \<open>Send\<close>, in the order made.
\<close>

datatype level = Error | Info

datatype channel = EmailChannel | SlackChannel | WebhookChannel

datatype delivery = EmailTo string | SlackTo string | WebhookTo string

record world =
  clock :: "nat \<Rightarrow> time"
  reads :: nat
  uuids :: "nat \<Rightarrow> nat"
  draws :: nat
  logs :: "(level \<times> string) list"
  tasks :: "channel list"
  outbox :: "delivery list"

definition Now :: "world \<Rightarrow> time \<times> world" where
  "Now w = (clock w (reads w), w\<lparr>reads := Suc (reads w)\<rparr>)"

definition logger :: "level \<Rightarrow> string \<Rightarrow> world \<Rightarrow> world" where
  "logger l msg w = w\<lparr>logs := logs w @ [(l, msg)]\<rparr>"

text \<open>
  \<open>uuid.New().String()\<close>: the 16 bytes in lower-case hexadecimal, grouped 8-4-4-4-12 and
  separated by dashes.
\<close>

definition hexdigit :: "nat \<Rightarrow> char" where
  "hexdigit n = ''0123456789abcdef'' ! (n mod 16)"

fun hex :: "nat \<Rightarrow> nat \<Rightarrow> string" where
  "hex 0 n = []"
| "hex (Suc k) n = hex k (n div 16) @ [hexdigit n]"

definition uuid_String :: "nat \<Rightarrow> string" where
  "uuid_String u =
     hex 8 (u div 2 ^ 96) @ ''-'' @ hex 4 (u div 2 ^ 80) @ ''-'' @ hex 4 (u div 2 ^ 64) @ ''-'' @
     hex 4 (u div 2 ^ 48) @ ''-'' @ hex 12 u"

definition uuid_New :: "world \<Rightarrow> string \<times> world" where
  "uuid_New w = (uuid_String (uuids w (draws w)), w\<lparr>draws := Suc (draws w)\<rparr>)"

text \<open>
  Library functions the code calls, as parameters of the model:
  \<^item> \<open>ParseIP s\<close> holds when \<open>net.ParseIP(s)\<close> is not \<open>nil\<close>; the validator's \<open>ip\<close> tag is
    decided by the same function;
  \<^item> \<open>Marshal\<close> is \<open>json.Marshal\<close> on a metadata map, \<open>None\<close> being its error;
  \<^item> \<open>Unmarshal\<close> is \<open>json.Unmarshal\<close> into a metadata map, \<open>None\<close> being its error;
  \<^item> \<open>inet_text\<close> is the text PostgreSQL gives for \<open>ip::text\<close>;
  \<^item> \<open>MapToUpper\<close> is \<open>strings.Map(unicode.ToUpper, s)\<close>: the text decoded from UTF-8, every
    code point mapped to its upper case by the Unicode tables, and encoded again.
\<close>

record lib =
  ParseIP :: "string \<Rightarrow> bool"
  Marshal :: "meta option \<Rightarrow> string option"
  Unmarshal :: "string \<Rightarrow> meta option option"
  inet_text :: "string \<Rightarrow> string"
  MapToUpper :: "string \<Rightarrow> string"

text \<open>
  \<open>strings.ToUpper(s)\<close>, as the library computes it. A text all of whose bytes are below
  \<open>utf8.RuneSelf\<close> (\<open>0x80\<close>) is mapped byte by byte: the letters \<open>a\<close>..\<open>z\<close> go to \<open>A\<close>..\<open>Z\<close> and
  every other byte is kept. A text with a byte from \<open>0x80\<close> on is mapped code point by code
  point, by \<open>strings.Map(unicode.ToUpper, s)\<close>; there the result can differ from the text in
  length and in bytes that are not letters of ASCII (the long s, \<open>U+017F\<close>, has upper case
  \<open>S\<close>).
\<close>

definition upperByte :: "char \<Rightarrow> char" where
  "upperByte c =
     (let n = (of_char c :: nat) in if 97 \<le> n \<and> n \<le> 122 then char_of (n - 32) else c)"

definition isASCII :: "string \<Rightarrow> bool" where
  "isASCII s \<longleftrightarrow> list_all (\<lambda>c. (of_char c :: nat) < 128) s"

definition ToUpper :: "lib \<Rightarrow> string \<Rightarrow> string" where
  "ToUpper l s = (if isASCII s then map upperByte s else MapToUpper l s)"

section \<open>Notification fan-out (services/notification.go)\<close>

text \<open>
  A sender is the transport behind \<open>Send\<close>. The subject, message and payload that the service
  passes to it are functions of the record alone (\<open>formatEmailMessage\<close>, \<open>formatSlackMessage\<close>,
  \<open>formatWebhookPayload\<close>), so the transport's verdict is a function of the recipient and the
  record: \<open>None\<close> is success, \<open>Some e\<close> the transport's error. A sender that is \<open>nil\<close> is
  \<open>None\<close>.
\<close>

type_synonym sender = "string \<Rightarrow> AuditLog \<Rightarrow> string option"

record NotificationService =
  ns_config :: NotificationConfig
  emailSender :: "sender option"
  slackSender :: "sender option"
  webhookSender :: "sender option"

datatype channel_error =
    EmailSenderNotConfigured
  | SendEmailFailed string string
  | SlackSenderNotConfigured
  | SendSlackFailed string
  | WebhookSenderNotConfigured
  | SendWebhookFailed string string

text \<open>The loop of \<open>sendEmailNotification\<close> over \<open>ns.config.Email.To\<close>.\<close>

fun email_loop :: "sender \<Rightarrow> AuditLog \<Rightarrow> string list \<Rightarrow> world \<Rightarrow> channel_error option \<times> world" where
  "email_loop send a [] w = (None, w)"
| "email_loop send a (recipient # rest) w =
     (let w1 = w\<lparr>outbox := outbox w @ [EmailTo recipient]\<rparr> in
      case send recipient a of
        Some err \<Rightarrow> (Some (SendEmailFailed recipient err), w1)
      | None \<Rightarrow> email_loop send a rest w1)"

definition sendEmailNotification ::
  "NotificationService \<Rightarrow> AuditLog \<Rightarrow> world \<Rightarrow> channel_error option \<times> world" where
  "sendEmailNotification ns a w =
     (case emailSender ns of
        None \<Rightarrow> (Some EmailSenderNotConfigured, w)
      | Some send \<Rightarrow>
          (case email_loop send a (email_To (Email (ns_config ns))) w of
             (Some err, w1) \<Rightarrow> (Some err, w1)
           | (None, w1) \<Rightarrow> (None, logger Info ''Email notification sent successfully'' w1)))"

definition sendSlackNotification ::
  "NotificationService \<Rightarrow> AuditLog \<Rightarrow> world \<Rightarrow> channel_error option \<times> world" where
  "sendSlackNotification ns a w =
     (case slackSender ns of
        None \<Rightarrow> (Some SlackSenderNotConfigured, w)
      | Some send \<Rightarrow>
          (let channel = (if slack_Channel (Slack (ns_config ns)) = [] then ''#audit-alerts''
                          else slack_Channel (Slack (ns_config ns)));
               w1 = w\<lparr>outbox := outbox w @ [SlackTo channel]\<rparr> in
           case send channel a of
             Some err \<Rightarrow> (Some (SendSlackFailed err), w1)
           | None \<Rightarrow> (None, logger Info ''Slack notification sent successfully'' w1)))"

text \<open>The loop of \<open>sendWebhookNotification\<close> over \<open>ns.config.Webhook.URLs\<close>.\<close>

fun webhook_loop :: "sender \<Rightarrow> AuditLog \<Rightarrow> string list \<Rightarrow> world \<Rightarrow> channel_error option \<times> world" where
  "webhook_loop send a [] w = (None, w)"
| "webhook_loop send a (url # rest) w =
     (let w1 = w\<lparr>outbox := outbox w @ [WebhookTo url]\<rparr> in
      case send url a of
        Some err \<Rightarrow> (Some (SendWebhookFailed url err), w1)
      | None \<Rightarrow> webhook_loop send a rest w1)"

definition sendWebhookNotification ::
  "NotificationService \<Rightarrow> AuditLog \<Rightarrow> world \<Rightarrow> channel_error option \<times> world" where
  "sendWebhookNotification ns a w =
     (case webhookSender ns of
        None \<Rightarrow> (Some WebhookSenderNotConfigured, w)
      | Some send \<Rightarrow>
          (case webhook_loop send a (webhook_URLs (Webhook (ns_config ns))) w of
             (Some err, w1) \<Rightarrow> (Some err, w1)
           | (None, w1) \<Rightarrow> (None, logger Info ''Webhook notification sent successfully'' w1)))"

definition criticalEvents :: "string list" where
  "criticalEvents = [''DELETE'', ''UNAUTHORIZED_ACCESS'', ''SECURITY_BREACH'']"

text \<open>The loop of \<open>shouldNotifyByEmail\<close> over \<open>criticalEvents\<close>.\<close>

fun critical_loop :: "lib \<Rightarrow> string list \<Rightarrow> AuditLog \<Rightarrow> bool" where
  "critical_loop l [] a = False"
| "critical_loop l (event # rest) a =
     (if Contains (ToUpper l (Event a)) event then True else critical_loop l rest a)"

definition shouldNotifyByEmail :: "lib \<Rightarrow> AuditLog \<Rightarrow> bool" where
  "shouldNotifyByEmail l a = critical_loop l criticalEvents a"

definition shouldNotifyBySlack :: "AuditLog \<Rightarrow> bool" where
  "shouldNotifyBySlack a \<longleftrightarrow> Environment a = ''production''"

definition shouldNotifyByWebhook :: "AuditLog \<Rightarrow> bool" where
  "shouldNotifyByWebhook a = True"

definition shouldSendNotification :: "NotificationService \<Rightarrow> lib \<Rightarrow> AuditLog \<Rightarrow> bool" where
  "shouldSendNotification ns l a \<longleftrightarrow>
     (email_Enabled (Email (ns_config ns)) \<and> shouldNotifyByEmail l a) \<or>
     (slack_Enabled (Slack (ns_config ns)) \<and> shouldNotifyBySlack a) \<or>
     (webhook_Enabled (Webhook (ns_config ns)) \<and> shouldNotifyByWebhook a)"

text \<open>
  One channel of \<open>SendNotification\<close>: \<open>wg.Add(1)\<close> and the task that calls the channel's send
  function and reports its error, tagged with the channel.
\<close>

definition dispatch ::
  "channel \<Rightarrow> (AuditLog \<Rightarrow> world \<Rightarrow> channel_error option \<times> world) \<Rightarrow> AuditLog \<Rightarrow> world \<Rightarrow>
     (channel \<times> channel_error) list \<times> world" where
  "dispatch ch send a w =
     (case send a (w\<lparr>tasks := tasks w @ [ch]\<rparr>) of
        (Some err, w1) \<Rightarrow> ([(ch, err)], w1)
      | (None, w1) \<Rightarrow> ([], w1))"

text \<open>
  \<open>SendNotification\<close>. The three tasks run concurrently in the code; the model runs them one
  after the other in the order they are started, which fixes one of the possible orders of the
  collected errors and of the log. The result is \<open>None\<close> for \<open>nil\<close> and otherwise the collected
  channel failures (the parts of the message \<open>notification errors: ...\<close>).
\<close>

definition SendNotification ::
  "NotificationService \<Rightarrow> lib \<Rightarrow> AuditLog \<Rightarrow> world \<Rightarrow>
     (channel \<times> channel_error) list option \<times> world" where
  "SendNotification ns l a w =
     (if \<not> shouldSendNotification ns l a then (None, w)
      else
        let (e1, w1) =
              (if email_Enabled (Email (ns_config ns)) \<and> shouldNotifyByEmail l a
               then dispatch EmailChannel (sendEmailNotification ns) a w else ([], w));
            (e2, w2) =
              (if slack_Enabled (Slack (ns_config ns)) \<and> shouldNotifyBySlack a
               then dispatch SlackChannel (sendSlackNotification ns) a w1 else ([], w1));
            (e3, w3) =
              (if webhook_Enabled (Webhook (ns_config ns)) \<and> shouldNotifyByWebhook a
               then dispatch WebhookChannel (sendWebhookNotification ns) a w2 else ([], w2));
            notificationErrors = e1 @ e2 @ e3;
            w4 = foldl (\<lambda>w' err. logger Error ''Notification failed'' w') w3 notificationErrors
        in if notificationErrors \<noteq> [] then (Some notificationErrors, w4) else (None, w4))"

section \<open>The relational backend\<close>

text \<open>
  The table \<open>audit_logs\<close> is a list of rows, a row giving every column its value. The
  statements are the four the repository sends; their parameters \<open>$1\<close>, \<open>$2\<close>, ... are looked
  up in the argument list by position, as the backend does. \<open>refuses\<close> is the backend's
  verdict on a statement for reasons outside the model (lost connection, a violated
  constraint of the schema): a refused statement fails and changes nothing.
\<close>

datatype column =
    c_id | c_tenant_id | c_user_id | c_resource | c_event | c_method | c_ip | c_status
  | c_data | c_environment | c_meta | c_timestamp | c_created_at | c_updated_at

datatype sqlval = Null | Text string | Bytes string | Timestamptz time | Integer int

datatype cmp = EQ | GE | LE

type_synonym condition = "column \<times> cmp \<times> nat"

datatype source = Param nat | NOW

type_synonym row = "column \<Rightarrow> sqlval"

datatype stmt =
    INSERT "column list" "sqlval list"
  | UPDATE "(column \<times> source) list" nat "sqlval list"
  | COUNT "condition list" "sqlval list"
  | SELECT "condition list" nat nat "sqlval list"

record db =
  table :: "row list"
  refuses :: "stmt \<Rightarrow> bool"

definition param :: "sqlval list \<Rightarrow> nat \<Rightarrow> sqlval" where
  "param args i = (if 0 < i \<and> i \<le> length args then args ! (i - 1) else Null)"

fun compare :: "cmp \<Rightarrow> sqlval \<Rightarrow> sqlval \<Rightarrow> bool" where
  "compare EQ (Text a) (Text b) = (a = b)"
| "compare GE (Timestamptz a) (Timestamptz b) = (b \<le> a)"
| "compare LE (Timestamptz a) (Timestamptz b) = (a \<le> b)"
| "compare _ _ _ = False"

definition holds :: "sqlval list \<Rightarrow> row \<Rightarrow> condition \<Rightarrow> bool" where
  "holds args r cond = (case cond of (col, op, i) \<Rightarrow> compare op (r col) (param args i))"

text \<open>The rows a \<open>WHERE\<close> clause selects: every condition holds (no condition: every row).\<close>

definition rows_where :: "condition list \<Rightarrow> sqlval list \<Rightarrow> row list \<Rightarrow> row list" where
  "rows_where conditions args rows = filter (\<lambda>r. list_all (holds args r) conditions) rows"

definition timestamp_of :: "row \<Rightarrow> time" where
  "timestamp_of r = (case r c_timestamp of Timestamptz t \<Rightarrow> t | _ \<Rightarrow> 0)"

text \<open>
  \<open>SELECT ... ORDER BY timestamp DESC LIMIT $l OFFSET $o\<close>. The backend rejects a limit or
  offset that is not a non-negative integer. Rows of equal timestamp keep their table order.
\<close>

definition exec_select :: "condition list \<Rightarrow> nat \<Rightarrow> nat \<Rightarrow> sqlval list \<Rightarrow> row list \<Rightarrow> row list option" where
  "exec_select conditions l o' args rows =
     (case (param args l, param args o') of
        (Integer lim, Integer off) \<Rightarrow>
          if lim < 0 \<or> off < 0 then None
          else Some (take (nat lim) (drop (nat off)
                 (sort_key (\<lambda>r. - timestamp_of r) (rows_where conditions args rows))))
      | _ \<Rightarrow> None)"

text \<open>\<open>INSERT INTO audit_logs (columns) VALUES (args)\<close>: a column not listed is \<open>Null\<close>.\<close>

definition insert_row :: "column list \<Rightarrow> sqlval list \<Rightarrow> row" where
  "insert_row cols args = foldr (\<lambda>(c, v) r. r(c := v)) (zip cols args) (\<lambda>_. Null)"



section \<open>Repository (package repositories)\<close>

datatype repo_error =
    MarshalMetaFailed
  | CreateExecFailed
  | CountFailed
  | QueryFailed
  | ScanFailed
  | UnmarshalMetaFailed
  | UpdateExecFailed
  | NotFound

definition insert_columns :: "column list" where
  "insert_columns =
     [c_id, c_tenant_id, c_user_id, c_resource, c_event, c_method, c_ip, c_status, c_data,
      c_environment, c_meta, c_timestamp, c_created_at, c_updated_at]"

definition raw :: "string option \<Rightarrow> sqlval" where
  "raw data = (case data of None \<Rightarrow> Null | Some b \<Rightarrow> Bytes b)"

text \<open>The arguments \<open>$1\<close> .. \<open>$14\<close> that \<open>Create\<close> passes with its \<open>INSERT\<close>.\<close>

definition insert_args :: "AuditLog \<Rightarrow> string \<Rightarrow> sqlval list" where
  "insert_args a metaJSON =
     [Text (ID a), Text (TenantID a), Text (UserID a), Text (Resource a), Text (Event a),
      Text (Method a), Text (IP a), Text (Status a), raw (Data a), Text (Environment a),
      Bytes metaJSON, Timestamptz (Timestamp a), Timestamptz (CreatedAt a),
      Timestamptz (UpdatedAt a)]"

text \<open>
  \<open>Create\<close> writes the identifier and the three timestamps into the record it is given (a
  pointer in the code), so the record is returned on every path.
\<close>

definition Create :: "lib \<Rightarrow> AuditLog \<Rightarrow> world \<Rightarrow> db \<Rightarrow> repo_error option \<times> AuditLog \<times> world \<times> db" where
  "Create l auditLog w d =
     (let (newID, w1) = uuid_New w;
          (t1, w2) = Now w1;
          (t2, w3) = Now w2;
          (t3, w4) = Now w3;
          a = auditLog\<lparr>ID := newID, Timestamp := t1, CreatedAt := t2, UpdatedAt := t3\<rparr>
      in case Marshal l (Meta a) of
           None \<Rightarrow> (Some MarshalMetaFailed, a, w4, d)
         | Some metaJSON \<Rightarrow>
             (let args = insert_args a metaJSON
              in if refuses d (INSERT insert_columns args) then (Some CreateExecFailed, a, w4, d)
                 else (None, a, w4, d\<lparr>table := table d @ [insert_row insert_columns args]\<rparr>)))"

text \<open>
  One step of \<open>buildWhereClause\<close>: when the filter field is present, append the condition
  with the next parameter number and the argument.
\<close>

definition add_condition ::
  "bool \<Rightarrow> column \<Rightarrow> cmp \<Rightarrow> sqlval \<Rightarrow> condition list \<times> sqlval list \<times> nat \<Rightarrow>
     condition list \<times> sqlval list \<times> nat" where
  "add_condition present col op v st =
     (case st of (conditions, args, argIndex) \<Rightarrow>
        if present then (conditions @ [(col, op, argIndex)], args @ [v], argIndex + 1) else st)"

definition buildWhereClause :: "AuditLogFilter \<Rightarrow> condition list \<times> sqlval list" where
  "buildWhereClause flt =
     (let st = ([], [], 1);
          st = add_condition (f_TenantID flt \<noteq> []) c_tenant_id EQ (Text (f_TenantID flt)) st;
          st = add_condition (f_UserID flt \<noteq> []) c_user_id EQ (Text (f_UserID flt)) st;
          st = add_condition (f_Resource flt \<noteq> []) c_resource EQ (Text (f_Resource flt)) st;
          st = add_condition (f_Event flt \<noteq> []) c_event EQ (Text (f_Event flt)) st;
          st = add_condition (f_Method flt \<noteq> []) c_method EQ (Text (f_Method flt)) st;
          st = add_condition (f_Status flt \<noteq> []) c_status EQ (Text (f_Status flt)) st;
          st = add_condition (f_Environment flt \<noteq> []) c_environment EQ
                 (Text (f_Environment flt)) st;
          st = add_condition (\<not> IsZero (f_StartDate flt)) c_timestamp GE
                 (Timestamptz (f_StartDate flt)) st;
          st = add_condition (\<not> IsZero (f_EndDate flt)) c_timestamp LE
                 (Timestamptz (f_EndDate flt)) st
      in (fst st, fst (snd st)))"

text \<open>
  \<open>rows.Scan\<close> of one row into an \<open>AuditLog\<close>: it fails on a value of the wrong kind; the
  metadata is decoded when its bytes are not empty.
\<close>

definition text_of :: "sqlval \<Rightarrow> string option" where
  "text_of v = (case v of Text s \<Rightarrow> Some s | _ \<Rightarrow> None)"

definition time_of :: "sqlval \<Rightarrow> time option" where
  "time_of v = (case v of Timestamptz t \<Rightarrow> Some t | _ \<Rightarrow> None)"

definition bytes_of :: "sqlval \<Rightarrow> string option option" where
  "bytes_of v = (case v of Bytes b \<Rightarrow> Some (Some b) | Null \<Rightarrow> Some None | _ \<Rightarrow> None)"

definition scan_ok :: "row \<Rightarrow> bool" where
  "scan_ok r \<longleftrightarrow>
     list_all (\<lambda>c. text_of (r c) \<noteq> None)
       [c_id, c_tenant_id, c_user_id, c_resource, c_event, c_method, c_ip, c_status,
        c_environment] \<and>
     list_all (\<lambda>c. bytes_of (r c) \<noteq> None) [c_data, c_meta] \<and>
     list_all (\<lambda>c. time_of (r c) \<noteq> None) [c_timestamp, c_created_at, c_updated_at]"

definition scan_row :: "lib \<Rightarrow> row \<Rightarrow> repo_error + AuditLog" where
  "scan_row l r =
     (if \<not> scan_ok r then Inl ScanFailed
      else
        let metaJSON = (case the (bytes_of (r c_meta)) of None \<Rightarrow> [] | Some b \<Rightarrow> b);
            a = \<lparr>ID = the (text_of (r c_id)), TenantID = the (text_of (r c_tenant_id)),
                 UserID = the (text_of (r c_user_id)), Resource = the (text_of (r c_resource)),
                 Event = the (text_of (r c_event)), Method = the (text_of (r c_method)),
                 IP = inet_text l (the (text_of (r c_ip))), Status = the (text_of (r c_status)),
                 Data = the (bytes_of (r c_data)), Environment = the (text_of (r c_environment)),
                 Meta = None, Timestamp = the (time_of (r c_timestamp)),
                 CreatedAt = the (time_of (r c_created_at)),
                 UpdatedAt = the (time_of (r c_updated_at))\<rparr>
        in if length metaJSON > 0
           then (case Unmarshal l metaJSON of
                   None \<Rightarrow> Inl UnmarshalMetaFailed
                 | Some m \<Rightarrow> Inr (a\<lparr>Meta := m\<rparr>))
           else Inr a)"

text \<open>The loop \<open>for rows.Next()\<close> of \<open>List\<close>: it returns at the first row that fails.\<close>

fun scan_rows :: "lib \<Rightarrow> row list \<Rightarrow> repo_error + AuditLog list" where
  "scan_rows l [] = Inr []"
| "scan_rows l (r # rs) =
     (case scan_row l r of
        Inl err \<Rightarrow> Inl err
      | Inr a \<Rightarrow> (case scan_rows l rs of Inl err \<Rightarrow> Inl err | Inr as \<Rightarrow> Inr (a # as)))"

definition List_repo :: "lib \<Rightarrow> db \<Rightarrow> AuditLogFilter \<Rightarrow> repo_error + PaginatedResponse" where
  "List_repo l d flt =
     (let (whereClause, args) = buildWhereClause flt in
      if refuses d (COUNT whereClause args) then Inl CountFailed
      else
        let total = int (length (rows_where whereClause args (table d)));
            args' = args @ [Integer (f_Limit flt), Integer (f_Offset flt)]
        in if refuses d (SELECT whereClause (length args + 1) (length args + 2) args')
           then Inl QueryFailed
           else
             (case exec_select whereClause (length args + 1) (length args + 2) args' (table d) of
                None \<Rightarrow> Inl QueryFailed
              | Some rows \<Rightarrow>
                  (case scan_rows l rows of
                     Inl err \<Rightarrow> Inl err
                   | Inr auditLogs \<Rightarrow>
                       Inr \<lparr>p_Data = auditLogs, p_Total = total, p_Limit = f_Limit flt,
                            p_Offset = f_Offset flt,
                            p_HasMore = (wrap64 (f_Offset flt + f_Limit flt) < total)\<rparr>)))"


section \<open>Request validation (the \<open>validate\<close> struct tags)\<close>

text \<open>
  \<open>s.validator.Struct(req)\<close> walks the fields of \<open>CreateAuditLogRequest\<close> in their order and
  checks the tags of each field from left to right, reporting for a field the first tag that
  fails: \<open>required\<close> fails on the empty string, \<open>oneof\<close> on a string that is not exactly one
  of the listed values, \<open>ip\<close> on a string that \<open>net.ParseIP\<close> does not accept. \<open>Status\<close>,
  \<open>Data\<close> and \<open>Meta\<close> carry no tag.
\<close>

datatype tag = required | oneof "string list" | ip

type_synonym field_error = "string \<times> tag"

fun check :: "lib \<Rightarrow> tag \<Rightarrow> string \<Rightarrow> bool" where
  "check l required v = (v \<noteq> [])"
| "check l (oneof vals) v = (v \<in> set vals)"
| "check l ip v = ParseIP l v"

fun first_failure :: "lib \<Rightarrow> tag list \<Rightarrow> string \<Rightarrow> tag option" where
  "first_failure l [] v = None"
| "first_failure l (t # ts) v = (if check l t v then first_failure l ts v else Some t)"

definition request_tags :: "(string \<times> tag list \<times> (CreateAuditLogRequest \<Rightarrow> string)) list" where
  "request_tags =
     [(''TenantID'', [required], req_TenantID),
      (''UserID'', [required], req_UserID),
      (''Resource'', [required], req_Resource),
      (''Event'', [required], req_Event),
      (''Method'', [required, oneof [''GET'', ''POST'', ''PUT'', ''DELETE'', ''PATCH'']], req_Method),
      (''IP'', [required, ip], req_IP),
      (''Environment'', [required, oneof [''development'', ''staging'', ''production'']],
         req_Environment)]"

definition validate_Struct :: "lib \<Rightarrow> CreateAuditLogRequest \<Rightarrow> field_error list" where
  "validate_Struct l req =
     List.map_filter
       (\<lambda>(name, tags, field). map_option (Pair name) (first_failure l tags (field req)))
       request_tags"

section \<open>Audit service (services/audit.go)\<close>

record Config =
  Audit :: AuditConfig
  Notification :: NotificationConfig

record AuditService =
  notificationService :: "NotificationService option"
  config :: Config

text \<open>The errors of the service, one constructor for each message it formats.\<close>

datatype error =
    ValidationFailed "field_error list"
  | InvalidIPAddress
  | InvalidStatus string string
  | FailedToCreate repo_error
  | StartAfterEnd
  | FailedToList repo_error
  | FailedToGetStats repo_error
  | IDRequired
  | StatusRequired
  | FailedToUpdateStatus repo_error

definition validateIP :: "lib \<Rightarrow> string \<Rightarrow> bool" where
  "validateIP l addr \<longleftrightarrow> ParseIP l addr"

text \<open>The struct literal that \<open>CreateAuditLog\<close> builds from the request and the status.\<close>

definition new_AuditLog :: "lib \<Rightarrow> CreateAuditLogRequest \<Rightarrow> string \<Rightarrow> AuditLog" where
  "new_AuditLog l req status =
     \<lparr>ID = [], TenantID = req_TenantID req, UserID = req_UserID req,
      Resource = req_Resource req, Event = req_Event req, Method = ToUpper l (req_Method req),
      IP = req_IP req, Status = status, Data = req_Data req, Environment = req_Environment req,
      Meta = req_Meta req, Timestamp = 0, CreatedAt = 0, UpdatedAt = 0\<rparr>"

text \<open>
  The task that \<open>CreateAuditLog\<close> starts with \<open>go func()\<close> when a notification service is
  configured: it sends the notifications and logs the error, if any.
\<close>

definition notification_task :: "AuditService \<Rightarrow> lib \<Rightarrow> AuditLog \<Rightarrow> world \<Rightarrow> world" where
  "notification_task s l a w =
     (case notificationService s of
        None \<Rightarrow> w
      | Some ns \<Rightarrow>
          (case SendNotification ns l a w of
             (Some err, w') \<Rightarrow> logger Error ''Failed to send notification'' w'
           | (None, w') \<Rightarrow> w'))"

text \<open>
  \<open>CreateAuditLog\<close>. The notification task is started after the record is stored and runs
  beside the caller; the model runs it to its end before it hands back the world, so that
  what the task logs and sends is part of the final world. The result and the database are
  those of the moment the function returns.
\<close>

definition CreateAuditLog ::
  "AuditService \<Rightarrow> lib \<Rightarrow> CreateAuditLogRequest \<Rightarrow> world \<Rightarrow> db \<Rightarrow> (error + AuditLog) \<times> world \<times> db" where
  "CreateAuditLog s l req w d =
     (case validate_Struct l req of
        e # es \<Rightarrow>
          (Inl (ValidationFailed (e # es)),
           logger Error ''Validation failed for audit log creation'' w, d)
      | [] \<Rightarrow>
          if \<not> validateIP l (req_IP req)
          then (Inl InvalidIPAddress, logger Error ''Invalid IP address'' w, d)
          else
            let status = (if req_Status req = [] then DefaultStatus (Audit (config s))
                          else req_Status req)
            in if Enabled (Audit (config s)) \<and> \<not> IsValidStatus (Audit (config s)) status
               then (Inl (InvalidStatus status (Join (StatusValues (Audit (config s))) '', '')),
                     logger Error ''Invalid status value'' w, d)
               else
                 (case Create l (new_AuditLog l req status) w d of
                    (Some err, a, w1, d1) \<Rightarrow>
                      (Inl (FailedToCreate err), logger Error ''Failed to create audit log'' w1, d1)
                  | (None, a, w1, d1) \<Rightarrow>
                      (Inr a,
                       notification_task s l a (logger Info ''Audit log created successfully'' w1),
                       d1)))"

text \<open>
  \<open>ListAuditLogs\<close> writes the defaults into the filter it is given (a pointer in the code),
  so the filter is returned with the result.
\<close>

definition ListAuditLogs ::
  "AuditService \<Rightarrow> lib \<Rightarrow> AuditLogFilter \<Rightarrow> world \<Rightarrow> db \<Rightarrow>
     (error + PaginatedResponse) \<times> AuditLogFilter \<times> world" where
  "ListAuditLogs s l flt0 w d =
     (let flt1 = (if f_Limit flt0 \<le> 0 then flt0\<lparr>f_Limit := 50\<rparr> else flt0);
          flt2 = (if f_Limit flt1 > 1000 then flt1\<lparr>f_Limit := 1000\<rparr> else flt1);
          flt = (if f_Offset flt2 < 0 then flt2\<lparr>f_Offset := 0\<rparr> else flt2)
      in if \<not> IsZero (f_StartDate flt) \<and> \<not> IsZero (f_EndDate flt) \<and>
            After (f_StartDate flt) (f_EndDate flt)
         then (Inl StartAfterEnd, flt, w)
         else
           (case List_repo l d flt of
              Inl err \<Rightarrow> (Inl (FailedToList err), flt, logger Error ''Failed to list audit logs'' w)
            | Inr result \<Rightarrow>
                (Inr result, flt, logger Info ''Audit logs retrieved successfully'' w)))"

record Stats =
  total_logs :: int
  error_count :: int
  start_date :: time
  end_date :: time
  tenant_id :: string

definition GetAuditLogStats ::
  "AuditService \<Rightarrow> lib \<Rightarrow> string \<Rightarrow> time \<Rightarrow> time \<Rightarrow> db \<Rightarrow> error + Stats" where
  "GetAuditLogStats s l tenantID startDate endDate d =
     (let flt = \<lparr>f_TenantID = tenantID, f_UserID = [], f_Resource = [], f_Event = [],
                 f_Method = [], f_Status = [], f_Environment = [], f_StartDate = startDate,
                 f_EndDate = endDate, f_Limit = 1, f_Offset = 0\<rparr>;
          errorFilter = \<lparr>f_TenantID = tenantID, f_UserID = [], f_Resource = [], f_Event = [],
                 f_Method = [], f_Status = ErrorStatus (Audit (config s)), f_Environment = [],
                 f_StartDate = startDate, f_EndDate = endDate, f_Limit = 1, f_Offset = 0\<rparr>
      in case List_repo l d flt of
           Inl err \<Rightarrow> Inl (FailedToGetStats err)
         | Inr result \<Rightarrow>
             (case List_repo l d errorFilter of
                Inl err \<Rightarrow> Inl (FailedToGetStats err)
              | Inr errorResult \<Rightarrow>
                  Inr \<lparr>total_logs = p_Total result, error_count = p_Total errorResult,
                       start_date = startDate, end_date = endDate, tenant_id = tenantID\<rparr>))"


section \<open>Concrete inputs\<close>

text \<open>
  The inputs at which the theorems below are instantiated. \<open>dotted_quad\<close> is the part of
  \<open>net.ParseIP\<close> that accepts IPv4 addresses in dotted decimal form; \<open>stub_lib\<close> uses it for
  \<open>ParseIP\<close>, encodes a metadata map by its keys only and decodes every text to the \<open>nil\<close> map.
  \<open>long_s_event\<close> is the event name \<open>security_breach\<close> written with the long s (\<open>U+017F\<close>, in
  UTF-8 the bytes \<open>C5 BF\<close>) for its first letter; \<open>unicode.ToUpper\<close> maps the long s to \<open>S\<close>, so
  the library upper-cases this text to \<open>SECURITY_BREACH\<close>, and so does \<open>stub_lib\<close>, which keeps
  every other text outside ASCII as it is.
\<close>

definition long_s_event :: string where
  "long_s_event = CHR 0xC5 # CHR 0xBF # ''ecurity_breach''"

definition digit :: "char \<Rightarrow> bool" where
  "digit c \<longleftrightarrow> (let n = (of_char c :: nat) in 48 \<le> n \<and> n \<le> 57)"

fun fields :: "string \<Rightarrow> string \<Rightarrow> string list" where
  "fields acc [] = [rev acc]"
| "fields acc (c # cs) = (if c = CHR ''.'' then rev acc # fields [] cs else fields (c # acc) cs)"

fun decimal :: "nat \<Rightarrow> string \<Rightarrow> nat" where
  "decimal n [] = n"
| "decimal n (c # cs) = decimal (10 * n + (of_char c - 48)) cs"

definition octet :: "string \<Rightarrow> bool" where
  "octet f \<longleftrightarrow>
     f \<noteq> [] \<and> length f \<le> 3 \<and> list_all digit f \<and> (1 < length f \<longrightarrow> hd f \<noteq> CHR ''0'') \<and>
     decimal 0 f \<le> 255"

definition dotted_quad :: "string \<Rightarrow> bool" where
  "dotted_quad s \<longleftrightarrow> (let fs = fields [] s in length fs = 4 \<and> list_all octet fs)"

definition stub_lib :: lib where
  "stub_lib =
     \<lparr>ParseIP = dotted_quad,
      Marshal = (\<lambda>m. Some (case m of None \<Rightarrow> ''null'' | Some kv \<Rightarrow> ''{'' @ Join (map fst kv) '','' @ ''}'')),
      Unmarshal = (\<lambda>s. Some None),
      inet_text = (\<lambda>s. s @ ''/32''),
      MapToUpper = (\<lambda>s. if s = long_s_event then ''SECURITY_BREACH'' else s)\<rparr>"

text \<open>A clock that advances by one at every reading, and identifiers counted from 7.\<close>

definition world0 :: world where
  "world0 =
     \<lparr>clock = (\<lambda>n. 1000 + int n), reads = 0, uuids = (\<lambda>n. 7 + n), draws = 0, logs = [],
      tasks = [], outbox = []\<rparr>"

definition db0 :: db where
  "db0 = \<lparr>table = [], refuses = (\<lambda>_. False)\<rparr>"

definition audit0 :: AuditConfig where
  "audit0 =
     \<lparr>Enabled = True, DefaultStatus = ''pending'',
      StatusValues = [''pending'', ''processing'', ''completed'', ''failed'', ''archived''],
      ErrorStatus = ''failed''\<rparr>"

definition notify0 :: NotificationConfig where
  "notify0 =
     \<lparr>Email = \<lparr>email_Enabled = True, email_To = [''a@example.com'', ''b@example.com'']\<rparr>,
      Slack = \<lparr>slack_Enabled = True, slack_Channel = []\<rparr>,
      Webhook = \<lparr>webhook_Enabled = True, webhook_URLs = [''http://hook-1'', ''http://hook-2'']\<rparr>\<rparr>"

definition service0 :: AuditService where
  "service0 = \<lparr>notificationService = None, config = \<lparr>Audit = audit0, Notification = notify0\<rparr>\<rparr>"

text \<open>The create request of the specification's scenario, and the same with \<open>POST\<close>.\<close>

definition request_post_lower :: CreateAuditLogRequest where
  "request_post_lower =
     \<lparr>req_TenantID = ''t1'', req_UserID = ''u1'', req_Resource = ''users'',
      req_Event = ''USER_CREATED'', req_Method = ''post'', req_IP = ''192.168.1.100'',
      req_Status = [], req_Data = None, req_Environment = ''production'', req_Meta = None\<rparr>"

definition request0 :: CreateAuditLogRequest where
  "request0 = request_post_lower\<lparr>req_Method := ''POST''\<rparr>"

text \<open>A table of two rows of tenant \<open>t1\<close>, a service without error status, a wild filter.\<close>

definition row1 :: row where
  "row1 = insert_row insert_columns
     [Text ''11111111-1111-4111-8111-111111111111'', Text ''t1'', Text ''u1'', Text ''users'', Text ''USER_CREATED'', Text ''POST'',
      Text ''192.168.1.100'', Text ''pending'', Bytes ''{}'', Text ''production'', Bytes ''null'',
      Timestamptz 1000, Timestamptz 1001, Timestamptz 1002]"

definition row2 :: row where
  "row2 = insert_row insert_columns
     [Text ''22222222-2222-4222-8222-222222222222'', Text ''t1'', Text ''u2'', Text ''roles'', Text ''ROLE_DELETED'', Text ''DELETE'',
      Text ''10.0.0.1'', Text ''failed'', Null, Text ''staging'', Bytes ''null'',
      Timestamptz 2000, Timestamptz 2001, Timestamptz 2002]"

definition db2 :: db where
  "db2 = \<lparr>table = [row1, row2], refuses = (\<lambda>_. False)\<rparr>"

definition log1 :: AuditLog where
  "log1 =
     \<lparr>ID = ''11111111-1111-4111-8111-111111111111'', TenantID = ''t1'', UserID = ''u1'', Resource = ''users'',
      Event = ''USER_CREATED'', Method = ''POST'', IP = ''192.168.1.100/32'', Status = ''pending'',
      Data = Some ''{}'', Environment = ''production'', Meta = None, Timestamp = 1000,
      CreatedAt = 1001, UpdatedAt = 1002\<rparr>"

definition log2 :: AuditLog where
  "log2 =
     \<lparr>ID = ''22222222-2222-4222-8222-222222222222'', TenantID = ''t1'', UserID = ''u2'', Resource = ''roles'',
      Event = ''ROLE_DELETED'', Method = ''DELETE'', IP = ''10.0.0.1/32'', Status = ''failed'',
      Data = None, Environment = ''staging'', Meta = None, Timestamp = 2000, CreatedAt = 2001,
      UpdatedAt = 2002\<rparr>"

definition service_no_error_status :: AuditService where
  "service_no_error_status =
     service0\<lparr>config := \<lparr>Audit = audit0\<lparr>ErrorStatus := []\<rparr>, Notification = notify0\<rparr>\<rparr>"

definition filter_t1 :: AuditLogFilter where
  "filter_t1 =
     \<lparr>f_TenantID = ''t1'', f_UserID = [], f_Resource = [], f_Event = [], f_Method = [],
      f_Status = [], f_Environment = [], f_StartDate = 0, f_EndDate = 0, f_Limit = 1,
      f_Offset = 0\<rparr>"

definition filter_wild :: AuditLogFilter where
  "filter_wild = filter_t1\<lparr>f_Limit := - 5, f_Offset := - 3\<rparr>"

text \<open>
  Senders: one that delivers everything, one that refuses the first e-mail recipient and the
  first webhook URL of \<open>notify0\<close>. The records of the specification's two scenarios.
\<close>

definition ok_sender :: sender where
  "ok_sender recipient a = None"

definition failing_sender :: sender where
  "failing_sender recipient a =
     (if recipient = ''a@example.com'' \<or> recipient = ''http://hook-1'' then Some ''refused''
      else None)"

definition notifier0 :: NotificationService where
  "notifier0 =
     \<lparr>ns_config = notify0, emailSender = Some ok_sender, slackSender = Some ok_sender,
      webhookSender = Some ok_sender\<rparr>"

definition notifier_failing :: NotificationService where
  "notifier_failing =
     \<lparr>ns_config = notify0, emailSender = Some failing_sender, slackSender = Some ok_sender,
      webhookSender = Some failing_sender\<rparr>"

definition notifier_off :: NotificationService where
  "notifier_off =
     \<lparr>ns_config =
        \<lparr>Email = \<lparr>email_Enabled = False, email_To = [''a@example.com'']\<rparr>,
         Slack = \<lparr>slack_Enabled = False, slack_Channel = []\<rparr>,
         Webhook = \<lparr>webhook_Enabled = False, webhook_URLs = [''http://hook-1'']\<rparr>\<rparr>,
      emailSender = Some ok_sender, slackSender = Some ok_sender,
      webhookSender = Some ok_sender\<rparr>"

definition log_deleted :: AuditLog where
  "log_deleted = log2\<lparr>Event := ''user_Deleted'', Environment := ''production''\<rparr>"

definition log_viewed :: AuditLog where
  "log_viewed = log2\<lparr>Event := ''USER_VIEWED'', Environment := ''development''\<rparr>"

definition log_long_s :: AuditLog where
  "log_long_s = log2\<lparr>Event := long_s_event, Environment := ''development''\<rparr>"

text \<open>
  The record that the service creates from \<open>request0\<close> in \<open>world0\<close>; requests with a bad IP
  address and with a status outside the vocabulary; a service with the vocabulary switched
  off and one whose notifier fails; two status updates.
\<close>

definition created0 :: AuditLog where
  "created0 =
     \<lparr>ID = uuid_String 7, TenantID = ''t1'', UserID = ''u1'', Resource = ''users'',
      Event = ''USER_CREATED'', Method = ''POST'', IP = ''192.168.1.100'', Status = ''pending'',
      Data = None, Environment = ''production'', Meta = None, Timestamp = 1000,
      CreatedAt = 1001, UpdatedAt = 1002\<rparr>"

definition request_bad_ip :: CreateAuditLogRequest where
  "request_bad_ip = request0\<lparr>req_IP := ''not-an-ip''\<rparr>"

definition request_bad_status :: CreateAuditLogRequest where
  "request_bad_status = request0\<lparr>req_Status := ''bogus''\<rparr>"

definition service_unchecked :: AuditService where
  "service_unchecked =
     service0\<lparr>config := \<lparr>Audit = audit0\<lparr>Enabled := False\<rparr>, Notification = notify0\<rparr>\<rparr>"

definition service_failing :: AuditService where
  "service_failing = service0\<lparr>notificationService := Some notifier_failing\<rparr>"



section \<open>Properties named by the specification\<close>


text \<open>
  The specification's "contains, case-insensitively": some contiguous run of the string
  equals the marker up to the case of letters.
\<close>

text \<open>
  The specification's error taxonomy, applied to the errors of the service as its component
  design assigns them: structural validation of a request is a \<open>ValidationError\<close>; a bad IP
  address found by the explicit check, a status outside the vocabulary, an empty identifier
  or status and an inverted date range are \<open>InvalidInputError\<close>s; a store operation that
  matched no row is a \<open>NotFoundError\<close>; every other store failure is a \<open>PersistenceError\<close>.
\<close>

datatype error_class = ValidationError | InvalidInputError | NotFoundError | PersistenceError

fun repo_error_class :: "repo_error \<Rightarrow> error_class" where
  "repo_error_class NotFound = NotFoundError"
| "repo_error_class _ = PersistenceError"

fun classify :: "error \<Rightarrow> error_class" where
  "classify (ValidationFailed errs) = ValidationError"
| "classify InvalidIPAddress = InvalidInputError"
| "classify (InvalidStatus status permitted) = InvalidInputError"
| "classify StartAfterEnd = InvalidInputError"
| "classify IDRequired = InvalidInputError"
| "classify StatusRequired = InvalidInputError"
| "classify (FailedToCreate err) = repo_error_class err"
| "classify (FailedToList err) = repo_error_class err"
| "classify (FailedToGetStats err) = repo_error_class err"
| "classify (FailedToUpdateStatus err) = repo_error_class err"

text \<open>The specification's resolved status: the request's status, or the default when empty.\<close>

definition resolved_status :: "AuditConfig \<Rightarrow> CreateAuditLogRequest \<Rightarrow> string" where
  "resolved_status c req = (if req_Status req = [] then DefaultStatus c else req_Status req)"

text \<open>
  The specification's case-insensitive containment: the marker occurs in the text when both
  are taken to upper case, the upper case of a text being the one the library gives.
\<close>

definition contains_ci :: "lib \<Rightarrow> string \<Rightarrow> string \<Rightarrow> bool" where
  "contains_ci l s marker \<longleftrightarrow> sublist (ToUpper l marker) (ToUpper l s)"

text \<open>
  What a channel does when its send function is run to its end from the world \<open>w\<close>: the calls
  of \<open>Send\<close> it makes, in order, and the failure it reports, tagged with the channel.
\<close>

definition deliveries :: "world \<Rightarrow> channel_error option \<times> world \<Rightarrow> delivery list" where
  "deliveries w r = drop (length (outbox w)) (outbox (snd r))"

definition failure :: "channel \<Rightarrow> channel_error option \<times> world \<Rightarrow> (channel \<times> channel_error) list" where
  "failure ch r = (case fst r of None \<Rightarrow> [] | Some err \<Rightarrow> [(ch, err)])"

section \<open>Evaluation at the concrete inputs\<close>

lemma row1_simps:
  "row1 c_id = Text ''11111111-1111-4111-8111-111111111111''" "row1 c_tenant_id = Text ''t1''" "row1 c_user_id = Text ''u1''"
  "row1 c_resource = Text ''users''" "row1 c_event = Text ''USER_CREATED''"
  "row1 c_method = Text ''POST''" "row1 c_ip = Text ''192.168.1.100''"
  "row1 c_status = Text ''pending''" "row1 c_data = Bytes ''{}''"
  "row1 c_environment = Text ''production''" "row1 c_meta = Bytes ''null''"
  "row1 c_timestamp = Timestamptz 1000" "row1 c_created_at = Timestamptz 1001"
  "row1 c_updated_at = Timestamptz 1002"
  by (simp_all add: row1_def insert_row_def insert_columns_def)

lemma row2_simps:
  "row2 c_id = Text ''22222222-2222-4222-8222-222222222222''" "row2 c_tenant_id = Text ''t1''" "row2 c_user_id = Text ''u2''"
  "row2 c_resource = Text ''roles''" "row2 c_event = Text ''ROLE_DELETED''"
  "row2 c_method = Text ''DELETE''" "row2 c_ip = Text ''10.0.0.1''"
  "row2 c_status = Text ''failed''" "row2 c_data = Null"
  "row2 c_environment = Text ''staging''" "row2 c_meta = Bytes ''null''"
  "row2 c_timestamp = Timestamptz 2000" "row2 c_created_at = Timestamptz 2001"
  "row2 c_updated_at = Timestamptz 2002"
  by (simp_all add: row2_def insert_row_def insert_columns_def)

lemma scan_row1: "scan_row stub_lib row1 = Inr log1"
  by (simp add: scan_row_def scan_ok_def text_of_def bytes_of_def time_of_def row1_simps
      stub_lib_def log1_def)

lemma scan_row2: "scan_row stub_lib row2 = Inr log2"
  by (simp add: scan_row_def scan_ok_def text_of_def bytes_of_def time_of_def row2_simps
      stub_lib_def log2_def)

lemma where_t1:
  "buildWhereClause (filter_t1\<lparr>f_Limit := lim, f_Offset := off\<rparr>) =
     ([(c_tenant_id, EQ, 1)], [Text ''t1''])"
  by (simp add: buildWhereClause_def add_condition_def IsZero_def filter_t1_def)

lemma rows_where_t1:
  "rows_where [(c_tenant_id, EQ, Suc 0)] (Text ''t1'' # as) [row1, row2] = [row1, row2]"
  by (simp add: rows_where_def holds_def param_def row1_simps row2_simps)

lemma List_repo_filter_t1:
  "List_repo stub_lib db2 (filter_t1\<lparr>f_Limit := 1, f_Offset := 0\<rparr>) =
     Inr \<lparr>p_Data = [log2], p_Total = 2, p_Limit = 1, p_Offset = 0, p_HasMore = True\<rparr>"
  by (simp add: List_repo_def where_t1 db2_def rows_where_t1 exec_select_def param_def
      timestamp_of_def row1_simps row2_simps scan_row2 wrap64_def)

lemma List_repo_filter_t1_50:
  "List_repo stub_lib db2 (filter_t1\<lparr>f_Limit := 50, f_Offset := 0\<rparr>) =
     Inr \<lparr>p_Data = [log2, log1], p_Total = 2, p_Limit = 50, p_Offset = 0, p_HasMore = False\<rparr>"
  by (simp add: List_repo_def where_t1 db2_def rows_where_t1 exec_select_def param_def
      timestamp_of_def row1_simps row2_simps scan_row1 scan_row2 wrap64_def)

lemma clamp_filter_wild:
  "(let flt1 = (if f_Limit filter_wild \<le> 0 then filter_wild\<lparr>f_Limit := 50\<rparr> else filter_wild);
        flt2 = (if f_Limit flt1 > 1000 then flt1\<lparr>f_Limit := 1000\<rparr> else flt1)
    in (if f_Offset flt2 < 0 then flt2\<lparr>f_Offset := 0\<rparr> else flt2)) =
   filter_t1\<lparr>f_Limit := 50, f_Offset := 0\<rparr>"
  by (simp add: filter_wild_def)

lemma ListAuditLogs_wild:
  "ListAuditLogs service0 stub_lib filter_wild world0 db2 =
     (Inr \<lparr>p_Data = [log2, log1], p_Total = 2, p_Limit = 50, p_Offset = 0, p_HasMore = False\<rparr>,
      filter_t1\<lparr>f_Limit := 50, f_Offset := 0\<rparr>,
      logger Info ''Audit logs retrieved successfully'' world0)"
proof -
  have dates: "f_StartDate (filter_t1\<lparr>f_Limit := 50, f_Offset := 0\<rparr>) = 0"
    by (simp add: filter_t1_def)
  show ?thesis
    using clamp_filter_wild
    by (simp add: ListAuditLogs_def Let_def List_repo_filter_t1_50 IsZero_def dates)
qed

lemma GetAuditLogStats_no_error_status:
  "GetAuditLogStats service_no_error_status stub_lib ''t1'' 0 0 db2 =
     Inr \<lparr>total_logs = 2, error_count = 2, start_date = 0, end_date = 0, tenant_id = ''t1''\<rparr>"
  using List_repo_filter_t1
  by (simp add: GetAuditLogStats_def service_no_error_status_def filter_t1_def)

section \<open>Listing and statistics\<close>

lemma param_last_two:
  "param (as @ [a, b]) (Suc (length as)) = a"
  "param (as @ [a, b]) (Suc (Suc (length as))) = b"
  by (simp_all add: param_def nth_append)

lemma List_repo_Inr:
  assumes "List_repo l d flt = Inr result" and "buildWhereClause flt = (whereClause, args)"
  shows "p_Limit result = f_Limit flt \<and> p_Offset result = f_Offset flt \<and>
         0 \<le> f_Limit flt \<and> 0 \<le> f_Offset flt \<and>
         scan_rows l (take (nat (f_Limit flt)) (drop (nat (f_Offset flt))
           (sort_key (\<lambda>r. - timestamp_of r)
              (rows_where whereClause (args @ [Integer (f_Limit flt), Integer (f_Offset flt)])
                 (table d))))) = Inr (p_Data result)"
  using assms unfolding List_repo_def Let_def exec_select_def
  by (auto simp: param_last_two split: if_splits option.splits sum.splits)

text \<open>
  Claim C9. Whatever filter a list call is given, the filter it queries with has the limit
  50 when the supplied limit is not positive, 1000 when it exceeds 1000 and the supplied limit
  otherwise, and the offset 0 when the supplied offset is negative; the other filter fields
  are the supplied ones. When the call returns a page, the page echoes this limit and offset
  and holds the rows the query selects with them: of the matching rows in descending
  timestamp order, the first \<open>limit\<close> after skipping \<open>offset\<close>.
\<close>

theorem ListAuditLogs_clamps_pagination:
  assumes "ListAuditLogs s l flt0 w d = (res, flt, w')"
  shows "f_Limit flt = (if f_Limit flt0 \<le> 0 then 50 else if f_Limit flt0 > 1000 then 1000
                        else f_Limit flt0) \<and>
         f_Offset flt = (if f_Offset flt0 < 0 then 0 else f_Offset flt0) \<and>
         flt = flt0\<lparr>f_Limit := f_Limit flt, f_Offset := f_Offset flt\<rparr> \<and>
         (\<forall>result whereClause args.
            res = Inr result \<and> buildWhereClause flt = (whereClause, args) \<longrightarrow>
            p_Limit result = f_Limit flt \<and> p_Offset result = f_Offset flt \<and>
            scan_rows l (take (nat (f_Limit flt)) (drop (nat (f_Offset flt))
              (sort_key (\<lambda>r. - timestamp_of r)
                 (rows_where whereClause (args @ [Integer (f_Limit flt), Integer (f_Offset flt)])
                    (table d))))) = Inr (p_Data result))"
proof -
  define flt1 where "flt1 = (if f_Limit flt0 \<le> 0 then flt0\<lparr>f_Limit := 50\<rparr> else flt0)"
  define flt2 where "flt2 = (if f_Limit flt1 > 1000 then flt1\<lparr>f_Limit := 1000\<rparr> else flt1)"
  define flt3 where "flt3 = (if f_Offset flt2 < 0 then flt2\<lparr>f_Offset := 0\<rparr> else flt2)"
  have unf: "ListAuditLogs s l flt0 w d =
     (if \<not> IsZero (f_StartDate flt3) \<and> \<not> IsZero (f_EndDate flt3) \<and>
            After (f_StartDate flt3) (f_EndDate flt3)
         then (Inl StartAfterEnd, flt3, w)
         else
           (case List_repo l d flt3 of
              Inl err \<Rightarrow> (Inl (FailedToList err), flt3, logger Error ''Failed to list audit logs'' w)
            | Inr result \<Rightarrow>
                (Inr result, flt3, logger Info ''Audit logs retrieved successfully'' w)))"
    unfolding ListAuditLogs_def flt3_def flt2_def flt1_def Let_def by (rule refl)
  have eq: "flt = flt3"
    using assms unfolding unf by (auto split: if_splits sum.splits)
  have lim: "f_Limit flt3 = (if f_Limit flt0 \<le> 0 then 50 else if f_Limit flt0 > 1000 then 1000
                        else f_Limit flt0)"
    and off: "f_Offset flt3 = (if f_Offset flt0 < 0 then 0 else f_Offset flt0)"
    and rest: "flt3 = flt0\<lparr>f_Limit := f_Limit flt3, f_Offset := f_Offset flt3\<rparr>"
    unfolding flt1_def flt2_def flt3_def by simp_all
  have "\<forall>result. res = Inr result \<longrightarrow> List_repo l d flt3 = Inr result"
    using assms unfolding unf by (auto split: if_splits sum.splits)
  then show ?thesis
    using lim off rest List_repo_Inr unfolding eq by blast
qed

theorem ListAuditLogs_clamps_pagination_witness:
  "ListAuditLogs service0 stub_lib filter_wild world0 db2 =
     (Inr \<lparr>p_Data = [log2, log1], p_Total = 2, p_Limit = 50, p_Offset = 0, p_HasMore = False\<rparr>,
      filter_t1\<lparr>f_Limit := 50, f_Offset := 0\<rparr>,
      logger Info ''Audit logs retrieved successfully'' world0) \<and>
   f_Limit filter_wild = - 5 \<and> f_Offset filter_wild = - 3 \<and>
   f_Limit (filter_t1\<lparr>f_Limit := 50, f_Offset := 0\<rparr>) = 50 \<and>
   f_Offset (filter_t1\<lparr>f_Limit := 50, f_Offset := 0\<rparr>) = 0 \<and>
   scan_rows stub_lib (take (nat 50) (drop (nat 0)
     (sort_key (\<lambda>r. - timestamp_of r)
        (rows_where [(c_tenant_id, EQ, 1)] ([Text ''t1''] @ [Integer 50, Integer 0]) (table db2)))))
     = Inr [log2, log1]"
  using ListAuditLogs_clamps_pagination [OF ListAuditLogs_wild]
    where_t1 [where lim = 50 and off = 0] ListAuditLogs_wild
  by (simp add: filter_wild_def)

lemma condition_columns:
  "c \<in> fst ` set (fst (add_condition p col op v st)) \<longleftrightarrow>
     c \<in> fst ` set (fst st) \<or> (p \<and> c = col)"
  by (cases st) (auto simp: add_condition_def)

lemma no_status_condition:
  "f_Status flt = [] \<Longrightarrow> c_status \<notin> fst ` set (fst (buildWhereClause flt))"
  unfolding buildWhereClause_def Let_def
  by (simp add: condition_columns)

text \<open>
  Claim C10. When the configured error status is the empty string, the statistics that
  \<open>GetAuditLogStats\<close> returns have an error count equal to the total count, for every tenant
  and date range: a filter whose status is the error status adds no condition on the status
  column, and the filter of the error-count query equals the filter of the total-count
  query.
\<close>

theorem GetAuditLogStats_empty_error_status:
  assumes "ErrorStatus (Audit (config s)) = []"
    and "GetAuditLogStats s l tenantID startDate endDate d = Inr stats"
  shows "error_count stats = total_logs stats \<and>
         (\<forall>flt. f_Status flt = ErrorStatus (Audit (config s)) \<longrightarrow>
            c_status \<notin> fst ` set (fst (buildWhereClause flt)))"
proof -
  have cond: "\<forall>flt. f_Status flt = ErrorStatus (Audit (config s)) \<longrightarrow>
            c_status \<notin> fst ` set (fst (buildWhereClause flt))"
    using assms(1) no_status_condition by simp
  let ?flt = "\<lparr>f_TenantID = tenantID, f_UserID = [], f_Resource = [], f_Event = [],
                 f_Method = [], f_Status = [], f_Environment = [], f_StartDate = startDate,
                 f_EndDate = endDate, f_Limit = 1, f_Offset = 0\<rparr>"
  from assms(2) obtain result errorResult where
    r: "List_repo l d ?flt = Inr result" and
    e: "List_repo l d ?flt = Inr errorResult" and
    st: "stats = \<lparr>total_logs = p_Total result, error_count = p_Total errorResult,
                       start_date = startDate, end_date = endDate, tenant_id = tenantID\<rparr>"
    unfolding GetAuditLogStats_def Let_def assms(1)
    by (auto split: sum.splits)
  from r e have "result = errorResult" by simp
  with st cond show ?thesis by simp
qed

theorem GetAuditLogStats_empty_error_status_witness:
  "ErrorStatus (Audit (config service_no_error_status)) = [] \<and>
   GetAuditLogStats service_no_error_status stub_lib ''t1'' 0 0 db2 =
     Inr \<lparr>total_logs = 2, error_count = 2, start_date = 0, end_date = 0, tenant_id = ''t1''\<rparr> \<and>
   error_count \<lparr>total_logs = 2, error_count = 2, start_date = 0, end_date = 0,
                tenant_id = ''t1''\<rparr> =
   total_logs \<lparr>total_logs = 2, error_count = 2, start_date = 0, end_date = 0,
               tenant_id = ''t1''\<rparr> \<and>
   fst (buildWhereClause (filter_t1\<lparr>f_Limit := 1, f_Offset := 0\<rparr>)) = [(c_tenant_id, EQ, 1)]"
proof -
  have h: "ErrorStatus (Audit (config service_no_error_status)) = []"
    by (simp add: service_no_error_status_def)
  show ?thesis
    using h GetAuditLogStats_no_error_status where_t1 [where lim = 1 and off = 0]
      GetAuditLogStats_empty_error_status [OF h GetAuditLogStats_no_error_status]
    by simp
qed

section \<open>Notification fan-out\<close>

lemma Contains_sublist: "Contains s substr \<longleftrightarrow> sublist substr s"
  by (induction s) (simp_all add: sublist_Cons_right)

lemma sublist_map_iff: "sublist m (map f s) \<longleftrightarrow> (\<exists>t. sublist t s \<and> map f t = m)"
proof
  assume "sublist m (map f s)"
  then show "\<exists>t. sublist t s \<and> map f t = m"
    using sublist_map_rightE [of m f s] by auto
next
  assume "\<exists>t. sublist t s \<and> map f t = m"
  then obtain t ps ss where "s = ps @ t @ ss" "map f t = m"
    by (auto simp: sublist_def)
  then have "map f s = map f ps @ m @ map f ss" by simp
  then show "sublist m (map f s)" by (simp only: sublist_appendI)
qed

lemma ToUpper_ASCII: "isASCII s \<Longrightarrow> ToUpper l s = map upperByte s"
  by (simp add: ToUpper_def)

lemma markers_upper:
  "ToUpper l ''DELETE'' = ''DELETE''" "ToUpper l ''UNAUTHORIZED_ACCESS'' = ''UNAUTHORIZED_ACCESS''"
  "ToUpper l ''SECURITY_BREACH'' = ''SECURITY_BREACH''"
  by (simp_all add: ToUpper_def isASCII_def upperByte_def)

lemma Contains_ToUpper:
  "ToUpper l marker = marker \<Longrightarrow> Contains (ToUpper l s) marker \<longleftrightarrow> contains_ci l s marker"
  by (simp add: Contains_sublist contains_ci_def)

text \<open>
  On a text and a marker of ASCII, the case-insensitive containment is the containment of
  the marker in the text up to the case of the letters \<open>a\<close>..\<open>z\<close>.
\<close>

lemma contains_ci_ASCII:
  "isASCII s \<Longrightarrow> isASCII marker \<Longrightarrow>
   contains_ci l s marker \<longleftrightarrow> (\<exists>t. sublist t s \<and> map upperByte t = map upperByte marker)"
  by (simp add: contains_ci_def ToUpper_ASCII sublist_map_iff)

lemma critical_loop_iff:
  "critical_loop l es a \<longleftrightarrow> (\<exists>m \<in> set es. Contains (ToUpper l (Event a)) m)"
  by (induction es) auto

lemma shouldNotifyByEmail_iff:
  "shouldNotifyByEmail l a \<longleftrightarrow>
     (\<exists>m \<in> set [''DELETE'', ''UNAUTHORIZED_ACCESS'', ''SECURITY_BREACH'']. contains_ci l (Event a) m)"
  unfolding shouldNotifyByEmail_def critical_loop_iff criticalEvents_def
  by (simp add: Contains_ToUpper markers_upper)

lemma tasks_logger [simp]: "tasks (logger lv msg w) = tasks w"
  by (simp add: logger_def)

lemma outbox_logger [simp]: "outbox (logger lv msg w) = outbox w"
  by (simp add: logger_def)

lemma tasks_email_loop: "email_loop send a rs w = (res, w') \<Longrightarrow> tasks w' = tasks w"
  by (induction rs arbitrary: w) (auto simp: Let_def split: option.splits)

lemma tasks_webhook_loop: "webhook_loop send a rs w = (res, w') \<Longrightarrow> tasks w' = tasks w"
  by (induction rs arbitrary: w) (auto simp: Let_def split: option.splits)

lemma tasks_sendEmail: "tasks (snd (sendEmailNotification ns a w)) = tasks w"
  by (auto simp: sendEmailNotification_def split: option.splits prod.splits
      dest: tasks_email_loop)

lemma tasks_sendSlack: "tasks (snd (sendSlackNotification ns a w)) = tasks w"
  by (auto simp: sendSlackNotification_def Let_def split: option.splits prod.splits)

lemma tasks_sendWebhook: "tasks (snd (sendWebhookNotification ns a w)) = tasks w"
  by (auto simp: sendWebhookNotification_def split: option.splits prod.splits
      dest: tasks_webhook_loop)

lemma tasks_dispatch:
  "(\<And>w. tasks (snd (send a w)) = tasks w) \<Longrightarrow> tasks (snd (dispatch ch send a w)) = tasks w @ [ch]"
proof -
  assume h: "\<And>w. tasks (snd (send a w)) = tasks w"
  have "tasks (snd (send a (w\<lparr>tasks := tasks w @ [ch]\<rparr>))) = tasks w @ [ch]"
    by (simp add: h)
  then show ?thesis
    by (auto simp: dispatch_def split: prod.splits option.splits)
qed

lemma tasks_foldl_logger: "tasks (foldl (\<lambda>w' err. logger lv msg w') w errs) = tasks w"
  by (induction errs arbitrary: w) simp_all

lemma outbox_foldl_logger: "outbox (foldl (\<lambda>w' err. logger lv msg w') w errs) = outbox w"
  by (induction errs arbitrary: w) simp_all

lemma email_loop_fst:
  "fst (email_loop send a rs w) =
     (case dropWhile (\<lambda>r. send r a = None) rs of
        [] \<Rightarrow> None
      | r # rest \<Rightarrow> map_option (SendEmailFailed r) (send r a))"
  by (induction rs arbitrary: w) (auto simp: Let_def split: option.splits)

lemma email_loop_outbox:
  "outbox (snd (email_loop send a rs w)) =
     outbox w @ map EmailTo (takeWhile (\<lambda>r. send r a = None) rs @
                            take 1 (dropWhile (\<lambda>r. send r a = None) rs))"
  by (induction rs arbitrary: w) (auto simp: Let_def split: option.splits)

lemma webhook_loop_fst:
  "fst (webhook_loop send a rs w) =
     (case dropWhile (\<lambda>r. send r a = None) rs of
        [] \<Rightarrow> None
      | r # rest \<Rightarrow> map_option (SendWebhookFailed r) (send r a))"
  by (induction rs arbitrary: w) (auto simp: Let_def split: option.splits)

lemma webhook_loop_outbox:
  "outbox (snd (webhook_loop send a rs w)) =
     outbox w @ map WebhookTo (takeWhile (\<lambda>r. send r a = None) rs @
                              take 1 (dropWhile (\<lambda>r. send r a = None) rs))"
  by (induction rs arbitrary: w) (auto simp: Let_def split: option.splits)

lemma sendEmailNotification_loop:
  "emailSender ns = Some send \<Longrightarrow>
   fst (sendEmailNotification ns a w) =
     fst (email_loop send a (email_To (Email (ns_config ns))) w) \<and>
   outbox (snd (sendEmailNotification ns a w)) =
     outbox (snd (email_loop send a (email_To (Email (ns_config ns))) w))"
  by (simp add: sendEmailNotification_def logger_def split: prod.splits option.splits)

lemma sendWebhookNotification_loop:
  "webhookSender ns = Some send \<Longrightarrow>
   fst (sendWebhookNotification ns a w) =
     fst (webhook_loop send a (webhook_URLs (Webhook (ns_config ns))) w) \<and>
   outbox (snd (sendWebhookNotification ns a w)) =
     outbox (snd (webhook_loop send a (webhook_URLs (Webhook (ns_config ns))) w))"
  by (simp add: sendWebhookNotification_def logger_def split: prod.splits option.splits)

text \<open>
  The world a send function starts in decides neither its error nor the calls of \<open>Send\<close> it
  makes, which it appends to the calls made before.
\<close>

lemma sendEmail_effect:
  "fst (sendEmailNotification ns a w) = fst (sendEmailNotification ns a w') \<and>
   outbox (snd (sendEmailNotification ns a w)) =
     outbox w @ deliveries w' (sendEmailNotification ns a w')"
proof (cases "emailSender ns")
  case None
  then show ?thesis
    by (simp add: sendEmailNotification_def deliveries_def)
next
  case (Some send)
  show ?thesis
    using sendEmailNotification_loop [OF Some, of a w] sendEmailNotification_loop [OF Some, of a w']
    by (simp add: email_loop_fst email_loop_outbox deliveries_def)
qed

lemma sendSlack_effect:
  "fst (sendSlackNotification ns a w) = fst (sendSlackNotification ns a w') \<and>
   outbox (snd (sendSlackNotification ns a w)) =
     outbox w @ deliveries w' (sendSlackNotification ns a w')"
  by (simp add: sendSlackNotification_def deliveries_def Let_def split: option.splits)

lemma sendWebhook_effect:
  "fst (sendWebhookNotification ns a w) = fst (sendWebhookNotification ns a w') \<and>
   outbox (snd (sendWebhookNotification ns a w)) =
     outbox w @ deliveries w' (sendWebhookNotification ns a w')"
proof (cases "webhookSender ns")
  case None
  then show ?thesis
    by (simp add: sendWebhookNotification_def deliveries_def)
next
  case (Some send)
  show ?thesis
    using sendWebhookNotification_loop [OF Some, of a w]
      sendWebhookNotification_loop [OF Some, of a w']
    by (simp add: webhook_loop_fst webhook_loop_outbox deliveries_def)
qed

lemma dispatch_effect:
  assumes "\<And>v v'. fst (send a v) = fst (send a v') \<and>
                   outbox (snd (send a v)) = outbox v @ deliveries v' (send a v')"
  shows "fst (dispatch ch send a w) = failure ch (send a w')"
    and "outbox (snd (dispatch ch send a w)) = outbox w @ deliveries w' (send a w')"
proof -
  let ?v = "w\<lparr>tasks := tasks w @ [ch]\<rparr>"
  have f: "fst (send a ?v) = fst (send a w')"
    and o: "outbox (snd (send a ?v)) = outbox w @ deliveries w' (send a w')"
    using assms [of ?v w'] by simp_all
  show "fst (dispatch ch send a w) = failure ch (send a w')"
    using f by (cases "send a ?v") (auto simp: dispatch_def failure_def split: option.splits)
  show "outbox (snd (dispatch ch send a w)) = outbox w @ deliveries w' (send a w')"
    using o by (cases "send a ?v") (auto simp: dispatch_def split: option.splits)
qed

text \<open>
  Claim C8. For every record and channel configuration, \<open>SendNotification\<close> dispatches
  exactly the channels whose conditions hold: the e-mail channel when it is enabled and the
  event name contains, case-insensitively, one of \<open>DELETE\<close>, \<open>UNAUTHORIZED_ACCESS\<close>,
  \<open>SECURITY_BREACH\<close>; the Slack channel when it is enabled and the environment is
  \<open>production\<close>; the webhook channel when it is enabled. The tasks it starts are those
  channels; the calls of \<open>Send\<close> it makes are those that the send functions of those channels
  make, and of no other; the failures it returns are those that the send functions of those
  channels report, and \<open>nil\<close> when there is none. When none of the three conditions holds,
  \<open>SendNotification\<close> returns \<open>nil\<close> and leaves the world as it was: nothing started, sent or
  logged.
\<close>

theorem SendNotification_dispatches:
  "tasks (snd (SendNotification ns l a w)) =
     tasks w @
     (if email_Enabled (Email (ns_config ns)) \<and>
         (\<exists>m \<in> set [''DELETE'', ''UNAUTHORIZED_ACCESS'', ''SECURITY_BREACH'']. contains_ci l (Event a) m)
      then [EmailChannel] else []) @
     (if slack_Enabled (Slack (ns_config ns)) \<and> Environment a = ''production''
      then [SlackChannel] else []) @
     (if webhook_Enabled (Webhook (ns_config ns)) then [WebhookChannel] else []) \<and>
   outbox (snd (SendNotification ns l a w)) =
     outbox w @
     (if email_Enabled (Email (ns_config ns)) \<and>
         (\<exists>m \<in> set [''DELETE'', ''UNAUTHORIZED_ACCESS'', ''SECURITY_BREACH'']. contains_ci l (Event a) m)
      then deliveries w (sendEmailNotification ns a w) else []) @
     (if slack_Enabled (Slack (ns_config ns)) \<and> Environment a = ''production''
      then deliveries w (sendSlackNotification ns a w) else []) @
     (if webhook_Enabled (Webhook (ns_config ns))
      then deliveries w (sendWebhookNotification ns a w) else []) \<and>
   fst (SendNotification ns l a w) =
     (case (if email_Enabled (Email (ns_config ns)) \<and>
               (\<exists>m \<in> set [''DELETE'', ''UNAUTHORIZED_ACCESS'', ''SECURITY_BREACH'']. contains_ci l (Event a) m)
            then failure EmailChannel (sendEmailNotification ns a w) else []) @
           (if slack_Enabled (Slack (ns_config ns)) \<and> Environment a = ''production''
            then failure SlackChannel (sendSlackNotification ns a w) else []) @
           (if webhook_Enabled (Webhook (ns_config ns))
            then failure WebhookChannel (sendWebhookNotification ns a w) else []) of
        [] \<Rightarrow> None
      | e # es \<Rightarrow> Some (e # es)) \<and>
   (\<not> ((email_Enabled (Email (ns_config ns)) \<and>
         (\<exists>m \<in> set [''DELETE'', ''UNAUTHORIZED_ACCESS'', ''SECURITY_BREACH'']. contains_ci l (Event a) m)) \<or>
       (slack_Enabled (Slack (ns_config ns)) \<and> Environment a = ''production'') \<or>
       webhook_Enabled (Webhook (ns_config ns)))
    \<longrightarrow> SendNotification ns l a w = (None, w))"
proof -
  define pe where "pe \<longleftrightarrow> email_Enabled (Email (ns_config ns)) \<and> shouldNotifyByEmail l a"
  define ps where "ps \<longleftrightarrow> slack_Enabled (Slack (ns_config ns)) \<and> shouldNotifyBySlack a"
  define pw where "pw \<longleftrightarrow> webhook_Enabled (Webhook (ns_config ns)) \<and> shouldNotifyByWebhook a"
  define r1 where "r1 = (if pe then dispatch EmailChannel (sendEmailNotification ns) a w else ([], w))"
  define r2 where "r2 = (if ps then dispatch SlackChannel (sendSlackNotification ns) a (snd r1)
                         else ([], snd r1))"
  define r3 where "r3 = (if pw then dispatch WebhookChannel (sendWebhookNotification ns) a (snd r2)
                         else ([], snd r2))"
  define errs where "errs = fst r1 @ fst r2 @ fst r3"
  have t1: "tasks (snd r1) = tasks w @ (if pe then [EmailChannel] else [])"
    unfolding r1_def by (simp add: tasks_dispatch tasks_sendEmail)
  have t2: "tasks (snd r2) = tasks (snd r1) @ (if ps then [SlackChannel] else [])"
    unfolding r2_def by (simp add: tasks_dispatch tasks_sendSlack)
  have t3: "tasks (snd r3) = tasks (snd r2) @ (if pw then [WebhookChannel] else [])"
    unfolding r3_def by (simp add: tasks_dispatch tasks_sendWebhook)
  have o1: "outbox (snd r1) =
      outbox w @ (if pe then deliveries w (sendEmailNotification ns a w) else [])"
    unfolding r1_def
    by (simp add: dispatch_effect(2) [where send = "sendEmailNotification ns" and w' = w, OF sendEmail_effect])
  have o2: "outbox (snd r2) =
      outbox (snd r1) @ (if ps then deliveries w (sendSlackNotification ns a w) else [])"
    unfolding r2_def
    by (simp add: dispatch_effect(2) [where send = "sendSlackNotification ns" and w' = w, OF sendSlack_effect])
  have o3: "outbox (snd r3) =
      outbox (snd r2) @ (if pw then deliveries w (sendWebhookNotification ns a w) else [])"
    unfolding r3_def
    by (simp add: dispatch_effect(2) [where send = "sendWebhookNotification ns" and w' = w, OF sendWebhook_effect])
  have f1: "fst r1 = (if pe then failure EmailChannel (sendEmailNotification ns a w) else [])"
    unfolding r1_def
    by (simp add: dispatch_effect(1) [where send = "sendEmailNotification ns" and w' = w, OF sendEmail_effect])
  have f2: "fst r2 = (if ps then failure SlackChannel (sendSlackNotification ns a w) else [])"
    unfolding r2_def
    by (simp add: dispatch_effect(1) [where send = "sendSlackNotification ns" and w' = w, OF sendSlack_effect])
  have f3: "fst r3 = (if pw then failure WebhookChannel (sendWebhookNotification ns a w) else [])"
    unfolding r3_def
    by (simp add: dispatch_effect(1) [where send = "sendWebhookNotification ns" and w' = w, OF sendWebhook_effect])
  have none: "\<not> (pe \<or> ps \<or> pw) \<Longrightarrow> SendNotification ns l a w = (None, w)"
    unfolding SendNotification_def shouldSendNotification_def pe_def ps_def pw_def by simp
  have eq: "pe \<or> ps \<or> pw \<Longrightarrow> SendNotification ns l a w =
      (if errs \<noteq> []
       then (Some errs, foldl (\<lambda>w' err. logger Error ''Notification failed'' w') (snd r3) errs)
       else (None, foldl (\<lambda>w' err. logger Error ''Notification failed'' w') (snd r3) errs))"
    unfolding SendNotification_def shouldSendNotification_def errs_def r3_def r2_def r1_def
      pe_def ps_def pw_def
    by (simp add: split_def Let_def)
  have quiet: "\<not> (pe \<or> ps \<or> pw) \<Longrightarrow> errs = [] \<and> snd r3 = w"
    unfolding errs_def r3_def r2_def r1_def by simp
  have tasks_eq: "tasks (snd (SendNotification ns l a w)) = tasks (snd r3)"
    and outbox_eq: "outbox (snd (SendNotification ns l a w)) = outbox (snd r3)"
    and fst_eq: "fst (SendNotification ns l a w) =
                   (case errs of [] \<Rightarrow> None | e # es \<Rightarrow> Some (e # es))"
  proof -
    show "tasks (snd (SendNotification ns l a w)) = tasks (snd r3)"
      using eq none quiet by (cases "pe \<or> ps \<or> pw") (simp_all add: tasks_foldl_logger)
    show "outbox (snd (SendNotification ns l a w)) = outbox (snd r3)"
      using eq none quiet by (cases "pe \<or> ps \<or> pw") (simp_all add: outbox_foldl_logger)
    show "fst (SendNotification ns l a w) =
            (case errs of [] \<Rightarrow> None | e # es \<Rightarrow> Some (e # es))"
      using eq none quiet by (cases "pe \<or> ps \<or> pw") (simp_all split: list.splits)
  qed
  have c1: "tasks (snd (SendNotification ns l a w)) =
     tasks w @ (if pe then [EmailChannel] else []) @ (if ps then [SlackChannel] else []) @
       (if pw then [WebhookChannel] else [])"
    unfolding tasks_eq t3 t2 t1 by simp
  have c2: "outbox (snd (SendNotification ns l a w)) =
     outbox w @ (if pe then deliveries w (sendEmailNotification ns a w) else []) @
       (if ps then deliveries w (sendSlackNotification ns a w) else []) @
       (if pw then deliveries w (sendWebhookNotification ns a w) else [])"
    unfolding outbox_eq o3 o2 o1 by simp
  have c3: "fst (SendNotification ns l a w) =
     (case (if pe then failure EmailChannel (sendEmailNotification ns a w) else []) @
           (if ps then failure SlackChannel (sendSlackNotification ns a w) else []) @
           (if pw then failure WebhookChannel (sendWebhookNotification ns a w) else []) of
        [] \<Rightarrow> None
      | e # es \<Rightarrow> Some (e # es))"
    unfolding fst_eq errs_def f1 f2 f3 by (rule refl)
  have c4: "\<not> (pe \<or> ps \<or> pw) \<longrightarrow> SendNotification ns l a w = (None, w)"
    using none by blast
  have pe: "pe \<longleftrightarrow> email_Enabled (Email (ns_config ns)) \<and>
         (\<exists>m \<in> set [''DELETE'', ''UNAUTHORIZED_ACCESS'', ''SECURITY_BREACH'']. contains_ci l (Event a) m)"
    unfolding pe_def shouldNotifyByEmail_iff by (rule refl)
  have ps: "ps \<longleftrightarrow> slack_Enabled (Slack (ns_config ns)) \<and> Environment a = ''production''"
    unfolding ps_def shouldNotifyBySlack_def by (rule refl)
  have pw: "pw \<longleftrightarrow> webhook_Enabled (Webhook (ns_config ns))"
    unfolding pw_def shouldNotifyByWebhook_def by simp
  show ?thesis
    using c1 c2 c3 c4 unfolding pe ps pw by (intro conjI)
qed

lemma char_eq_char_of: "c = char_of (n::nat) \<longleftrightarrow> take_bit 8 n = of_char c"
  using char_of_eq_iff [of n c] by auto

lemma shouldNotifyByEmail_deleted: "shouldNotifyByEmail l log_deleted"
  by (simp add: shouldNotifyByEmail_def criticalEvents_def log_deleted_def ToUpper_def
      isASCII_def upperByte_def char_of_eq_iff char_eq_char_of)

lemma shouldNotifyByEmail_viewed: "\<not> shouldNotifyByEmail l log_viewed"
  by (simp add: shouldNotifyByEmail_def criticalEvents_def log_viewed_def ToUpper_def
      isASCII_def upperByte_def char_of_eq_iff char_eq_char_of)

lemma ToUpper_long_s: "ToUpper stub_lib long_s_event = ''SECURITY_BREACH''"
  by (simp add: ToUpper_def isASCII_def long_s_event_def stub_lib_def)

lemma shouldNotifyByEmail_long_s: "shouldNotifyByEmail stub_lib log_long_s"
  by (simp add: shouldNotifyByEmail_def criticalEvents_def log_long_s_def ToUpper_long_s)

lemma notifier0_sends:
  "sendEmailNotification notifier0 a world0 =
     (None, logger Info ''Email notification sent successfully''
              (world0\<lparr>outbox := [EmailTo ''a@example.com'', EmailTo ''b@example.com'']\<rparr>))"
  "sendSlackNotification notifier0 a world0 =
     (None, logger Info ''Slack notification sent successfully''
              (world0\<lparr>outbox := [SlackTo ''#audit-alerts'']\<rparr>))"
  "sendWebhookNotification notifier0 a world0 =
     (None, logger Info ''Webhook notification sent successfully''
              (world0\<lparr>outbox := [WebhookTo ''http://hook-1'', WebhookTo ''http://hook-2'']\<rparr>))"
  by (simp_all add: sendEmailNotification_def sendSlackNotification_def
      sendWebhookNotification_def notifier0_def notify0_def ok_sender_def world0_def)

lemma notifier_failing_sends:
  "sendEmailNotification notifier_failing a world0 =
     (Some (SendEmailFailed ''a@example.com'' ''refused''),
      world0\<lparr>outbox := [EmailTo ''a@example.com'']\<rparr>)"
  "sendSlackNotification notifier_failing a world0 =
     (None, logger Info ''Slack notification sent successfully''
              (world0\<lparr>outbox := [SlackTo ''#audit-alerts'']\<rparr>))"
  "sendWebhookNotification notifier_failing a world0 =
     (Some (SendWebhookFailed ''http://hook-1'' ''refused''),
      world0\<lparr>outbox := [WebhookTo ''http://hook-1'']\<rparr>)"
  by (simp_all add: sendEmailNotification_def sendSlackNotification_def
      sendWebhookNotification_def notifier_failing_def notify0_def ok_sender_def
      failing_sender_def world0_def)

theorem SendNotification_dispatches_witness:
  "tasks (snd (SendNotification notifier0 stub_lib log_deleted world0)) =
     [EmailChannel, SlackChannel, WebhookChannel] \<and>
   outbox (snd (SendNotification notifier0 stub_lib log_deleted world0)) =
     [EmailTo ''a@example.com'', EmailTo ''b@example.com'', SlackTo ''#audit-alerts'',
      WebhookTo ''http://hook-1'', WebhookTo ''http://hook-2''] \<and>
   fst (SendNotification notifier0 stub_lib log_deleted world0) = None \<and>
   tasks (snd (SendNotification notifier0 stub_lib log_viewed world0)) = [WebhookChannel] \<and>
   outbox (snd (SendNotification notifier0 stub_lib log_viewed world0)) =
     [WebhookTo ''http://hook-1'', WebhookTo ''http://hook-2''] \<and>
   tasks (snd (SendNotification notifier0 stub_lib log_long_s world0)) =
     [EmailChannel, WebhookChannel] \<and>
   outbox (snd (SendNotification notifier0 stub_lib log_long_s world0)) =
     [EmailTo ''a@example.com'', EmailTo ''b@example.com'',
      WebhookTo ''http://hook-1'', WebhookTo ''http://hook-2''] \<and>
   outbox (snd (SendNotification notifier_failing stub_lib log_deleted world0)) =
     [EmailTo ''a@example.com'', SlackTo ''#audit-alerts'', WebhookTo ''http://hook-1''] \<and>
   fst (SendNotification notifier_failing stub_lib log_deleted world0) =
     Some [(EmailChannel, SendEmailFailed ''a@example.com'' ''refused''),
           (WebhookChannel, SendWebhookFailed ''http://hook-1'' ''refused'')] \<and>
   SendNotification notifier_off stub_lib log_deleted world0 = (None, world0)"
proof -
  have env: "Environment log_deleted = ''production''" "Environment log_viewed = ''development''"
    "Environment log_long_s = ''development''"
    by (simp_all add: log_deleted_def log_viewed_def log_long_s_def)
  have on: "email_Enabled (Email (ns_config notifier0))" "slack_Enabled (Slack (ns_config notifier0))"
    "webhook_Enabled (Webhook (ns_config notifier0))"
    "email_Enabled (Email (ns_config notifier_failing))"
    "slack_Enabled (Slack (ns_config notifier_failing))"
    "webhook_Enabled (Webhook (ns_config notifier_failing))"
    by (simp_all add: notifier0_def notifier_failing_def notify0_def)
  have off: "\<not> email_Enabled (Email (ns_config notifier_off))"
    "\<not> slack_Enabled (Slack (ns_config notifier_off))"
    "\<not> webhook_Enabled (Webhook (ns_config notifier_off))"
    by (simp_all add: notifier_off_def)
  have w0: "tasks world0 = []" "outbox world0 = []"
    by (simp_all add: world0_def)
  have ev: "\<exists>m \<in> set [''DELETE'', ''UNAUTHORIZED_ACCESS'', ''SECURITY_BREACH''].
              contains_ci stub_lib (Event log_deleted) m"
    "\<not> (\<exists>m \<in> set [''DELETE'', ''UNAUTHORIZED_ACCESS'', ''SECURITY_BREACH''].
              contains_ci stub_lib (Event log_viewed) m)"
    "\<exists>m \<in> set [''DELETE'', ''UNAUTHORIZED_ACCESS'', ''SECURITY_BREACH''].
              contains_ci stub_lib (Event log_long_s) m"
    using shouldNotifyByEmail_deleted [of stub_lib] shouldNotifyByEmail_viewed [of stub_lib]
      shouldNotifyByEmail_long_s
    unfolding shouldNotifyByEmail_iff by blast+
  note d = SendNotification_dispatches [of notifier0 stub_lib log_deleted world0]
  note v = SendNotification_dispatches [of notifier0 stub_lib log_viewed world0]
  note s = SendNotification_dispatches [of notifier0 stub_lib log_long_s world0]
  note f = SendNotification_dispatches [of notifier_failing stub_lib log_deleted world0]
  note n = SendNotification_dispatches [of notifier_off stub_lib log_deleted world0]
  have sent: "deliveries world0 (sendEmailNotification notifier0 a world0) =
      [EmailTo ''a@example.com'', EmailTo ''b@example.com'']"
    "deliveries world0 (sendSlackNotification notifier0 a world0) = [SlackTo ''#audit-alerts'']"
    "deliveries world0 (sendWebhookNotification notifier0 a world0) =
      [WebhookTo ''http://hook-1'', WebhookTo ''http://hook-2'']"
    "deliveries world0 (sendEmailNotification notifier_failing a world0) =
      [EmailTo ''a@example.com'']"
    "deliveries world0 (sendSlackNotification notifier_failing a world0) =
      [SlackTo ''#audit-alerts'']"
    "deliveries world0 (sendWebhookNotification notifier_failing a world0) =
      [WebhookTo ''http://hook-1'']"
    "failure ch (sendEmailNotification notifier0 a world0) = []"
    "failure ch (sendSlackNotification notifier0 a world0) = []"
    "failure ch (sendWebhookNotification notifier0 a world0) = []"
    "failure ch (sendEmailNotification notifier_failing a world0) =
      [(ch, SendEmailFailed ''a@example.com'' ''refused'')]"
    "failure ch (sendSlackNotification notifier_failing a world0) = []"
    "failure ch (sendWebhookNotification notifier_failing a world0) =
      [(ch, SendWebhookFailed ''http://hook-1'' ''refused'')]" for a ch
    by (simp_all add: notifier0_sends notifier_failing_sends deliveries_def failure_def w0)
  show ?thesis
    using d v s f n ev
    by (simp add: env on off w0 sent)
qed

text \<open>
  Claim C7, as amended. A channel with several recipients delivers to them one after the
  other in the configured order and stops at the first recipient whose delivery fails: the
  channel's error names that recipient and carries the transport's error, the recipients
  before it were delivered, and the recipients after it are not attempted. With no failing
  recipient every recipient is attempted and the channel succeeds.
\<close>

theorem send_stops_at_first_failure:
  "(emailSender ns = Some send \<longrightarrow>
      fst (sendEmailNotification ns a w) =
        (case dropWhile (\<lambda>r. send r a = None) (email_To (Email (ns_config ns))) of
           [] \<Rightarrow> None
         | r # rest \<Rightarrow> map_option (SendEmailFailed r) (send r a)) \<and>
      outbox (snd (sendEmailNotification ns a w)) =
        outbox w @ map EmailTo
          (takeWhile (\<lambda>r. send r a = None) (email_To (Email (ns_config ns))) @
           take 1 (dropWhile (\<lambda>r. send r a = None) (email_To (Email (ns_config ns)))))) \<and>
   (webhookSender ns = Some hook \<longrightarrow>
      fst (sendWebhookNotification ns a w) =
        (case dropWhile (\<lambda>u. hook u a = None) (webhook_URLs (Webhook (ns_config ns))) of
           [] \<Rightarrow> None
         | u # rest \<Rightarrow> map_option (SendWebhookFailed u) (hook u a)) \<and>
      outbox (snd (sendWebhookNotification ns a w)) =
        outbox w @ map WebhookTo
          (takeWhile (\<lambda>u. hook u a = None) (webhook_URLs (Webhook (ns_config ns))) @
           take 1 (dropWhile (\<lambda>u. hook u a = None) (webhook_URLs (Webhook (ns_config ns))))))"
proof (intro conjI impI)
  assume s: "emailSender ns = Some send"
  show "fst (sendEmailNotification ns a w) =
        (case dropWhile (\<lambda>r. send r a = None) (email_To (Email (ns_config ns))) of
           [] \<Rightarrow> None
         | r # rest \<Rightarrow> map_option (SendEmailFailed r) (send r a))"
    using sendEmailNotification_loop [OF s, of a w] by (simp only: email_loop_fst)
  show "outbox (snd (sendEmailNotification ns a w)) =
        outbox w @ map EmailTo
          (takeWhile (\<lambda>r. send r a = None) (email_To (Email (ns_config ns))) @
           take 1 (dropWhile (\<lambda>r. send r a = None) (email_To (Email (ns_config ns)))))"
    using sendEmailNotification_loop [OF s, of a w] by (simp only: email_loop_outbox)
next
  assume h: "webhookSender ns = Some hook"
  show "fst (sendWebhookNotification ns a w) =
        (case dropWhile (\<lambda>u. hook u a = None) (webhook_URLs (Webhook (ns_config ns))) of
           [] \<Rightarrow> None
         | u # rest \<Rightarrow> map_option (SendWebhookFailed u) (hook u a))"
    using sendWebhookNotification_loop [OF h, of a w] by (simp only: webhook_loop_fst)
  show "outbox (snd (sendWebhookNotification ns a w)) =
        outbox w @ map WebhookTo
          (takeWhile (\<lambda>u. hook u a = None) (webhook_URLs (Webhook (ns_config ns))) @
           take 1 (dropWhile (\<lambda>u. hook u a = None) (webhook_URLs (Webhook (ns_config ns)))))"
    using sendWebhookNotification_loop [OF h, of a w] by (simp only: webhook_loop_outbox)
qed

theorem send_stops_at_first_failure_witness:
  "emailSender notifier_failing = Some failing_sender \<and>
   webhookSender notifier_failing = Some failing_sender \<and>
   fst (sendEmailNotification notifier_failing log2 world0) =
     Some (SendEmailFailed ''a@example.com'' ''refused'') \<and>
   outbox (snd (sendEmailNotification notifier_failing log2 world0)) = [EmailTo ''a@example.com''] \<and>
   fst (sendWebhookNotification notifier_failing log2 world0) =
     Some (SendWebhookFailed ''http://hook-1'' ''refused'') \<and>
   outbox (snd (sendWebhookNotification notifier_failing log2 world0)) =
     [WebhookTo ''http://hook-1'']"
proof -
  have e: "emailSender notifier_failing = Some failing_sender"
    and h: "webhookSender notifier_failing = Some failing_sender"
    by (simp_all add: notifier_failing_def)
  have cfg: "email_To (Email (ns_config notifier_failing)) = [''a@example.com'', ''b@example.com'']"
    "webhook_URLs (Webhook (ns_config notifier_failing)) = [''http://hook-1'', ''http://hook-2'']"
    by (simp_all add: notifier_failing_def notify0_def)
  show ?thesis
    using send_stops_at_first_failure
      [of notifier_failing failing_sender log2 world0 failing_sender] e h
    by (simp add: cfg failing_sender_def world0_def)
qed

text \<open>
  The claim as stated fails: with the two configured recipients and a transport that refuses
  the first, the second recipient is never attempted.
\<close>

theorem send_skips_remaining_recipients:
  "email_To (Email (ns_config notifier_failing)) = [''a@example.com'', ''b@example.com''] \<and>
   failing_sender ''a@example.com'' log2 = Some ''refused'' \<and>
   fst (sendEmailNotification notifier_failing log2 world0) =
     Some (SendEmailFailed ''a@example.com'' ''refused'') \<and>
   EmailTo ''b@example.com'' \<notin> set (outbox (snd (sendEmailNotification notifier_failing log2 world0)))"
  by (simp add: sendEmailNotification_def notifier_failing_def notify0_def failing_sender_def
      world0_def)

section \<open>Creating a record\<close>

lemma first_failure_Nil [simp]: "first_failure l ts v = None \<longleftrightarrow> list_all (\<lambda>t. check l t v) ts"
  by (induction ts) auto

lemma map_filter_Nil_iff: "List.map_filter f xs = [] \<longleftrightarrow> list_all (\<lambda>x. f x = None) xs"
  by (induction xs) (auto simp: List.map_filter_def)

lemma validate_Struct_Nil_iff:
  "validate_Struct l req = [] \<longleftrightarrow>
     req_TenantID req \<noteq> [] \<and> req_UserID req \<noteq> [] \<and> req_Resource req \<noteq> [] \<and>
     req_Event req \<noteq> [] \<and>
     req_Method req \<noteq> [] \<and>
     req_Method req \<in> set [''GET'', ''POST'', ''PUT'', ''DELETE'', ''PATCH''] \<and>
     req_IP req \<noteq> [] \<and> ParseIP l (req_IP req) \<and> req_Environment req \<noteq> [] \<and>
     req_Environment req \<in> set [''development'', ''staging'', ''production'']"
proof -
  have "validate_Struct l req = [] \<longleftrightarrow>
        list_all (\<lambda>(name, tags, field). first_failure l tags (field req) = None) request_tags"
    unfolding validate_Struct_def map_filter_Nil_iff
    by (rule arg_cong [where f = "\<lambda>p. list_all p request_tags"]) (auto split: prod.splits)
  also have "\<dots> \<longleftrightarrow> req_TenantID req \<noteq> [] \<and> req_UserID req \<noteq> [] \<and> req_Resource req \<noteq> [] \<and>
     req_Event req \<noteq> [] \<and>
     req_Method req \<noteq> [] \<and>
     req_Method req \<in> set [''GET'', ''POST'', ''PUT'', ''DELETE'', ''PATCH''] \<and>
     req_IP req \<noteq> [] \<and> ParseIP l (req_IP req) \<and> req_Environment req \<noteq> [] \<and>
     req_Environment req \<in> set [''development'', ''staging'', ''production'']"
    unfolding request_tags_def
    by (simp del: set_simps)
  finally show ?thesis .
qed

lemma Create_eq:
  "Create l auditLog w d =
     (let a = auditLog\<lparr>ID := uuid_String (uuids w (draws w)), Timestamp := clock w (reads w),
                CreatedAt := clock w (Suc (reads w)), UpdatedAt := clock w (Suc (Suc (reads w)))\<rparr>;
          w4 = w\<lparr>reads := Suc (Suc (Suc (reads w))), draws := Suc (draws w)\<rparr>
      in case Marshal l (Meta auditLog) of
           None \<Rightarrow> (Some MarshalMetaFailed, a, w4, d)
         | Some metaJSON \<Rightarrow>
             if refuses d (INSERT insert_columns (insert_args a metaJSON))
             then (Some CreateExecFailed, a, w4, d)
             else (None, a, w4,
                   d\<lparr>table := table d @ [insert_row insert_columns (insert_args a metaJSON)]\<rparr>))"
  by (simp add: Create_def uuid_New_def Now_def Let_def split: option.splits)

lemma Create_result:
  assumes "Create l auditLog w d = (res, a, w1, d1)"
  shows "a = auditLog\<lparr>ID := uuid_String (uuids w (draws w)), Timestamp := clock w (reads w),
                CreatedAt := clock w (Suc (reads w)), UpdatedAt := clock w (Suc (Suc (reads w)))\<rparr>"
    and "w1 = w\<lparr>reads := Suc (Suc (Suc (reads w))), draws := Suc (draws w)\<rparr>"
    and "res \<noteq> None \<Longrightarrow> d1 = d"
    and "res = None \<Longrightarrow> \<exists>metaJSON. Marshal l (Meta auditLog) = Some metaJSON \<and>
           \<not> refuses d (INSERT insert_columns (insert_args a metaJSON)) \<and>
           d1 = d\<lparr>table := table d @ [insert_row insert_columns (insert_args a metaJSON)]\<rparr>"
  using assms unfolding Create_eq Let_def
  by (auto split: option.splits if_splits)

lemma status_loop_iff: "status_loop vs status \<longleftrightarrow> status \<in> set vs"
  by (induction vs) auto

lemma CreateAuditLog_invalid:
  "validate_Struct l req \<noteq> [] \<Longrightarrow>
   CreateAuditLog s l req w d =
     (Inl (ValidationFailed (validate_Struct l req)),
      logger Error ''Validation failed for audit log creation'' w, d)"
  by (cases "validate_Struct l req") (simp_all add: CreateAuditLog_def)

lemma CreateAuditLog_valid:
  assumes "validate_Struct l req = []"
  shows "CreateAuditLog s l req w d =
     (if Enabled (Audit (config s)) \<and>
         \<not> IsValidStatus (Audit (config s)) (resolved_status (Audit (config s)) req)
      then (Inl (InvalidStatus (resolved_status (Audit (config s)) req)
                   (Join (StatusValues (Audit (config s))) '', '')),
            logger Error ''Invalid status value'' w, d)
      else
        (case Create l (new_AuditLog l req (resolved_status (Audit (config s)) req)) w d of
           (Some err, a, w1, d1) \<Rightarrow>
             (Inl (FailedToCreate err), logger Error ''Failed to create audit log'' w1, d1)
         | (None, a, w1, d1) \<Rightarrow>
             (Inr a,
              notification_task s l a (logger Info ''Audit log created successfully'' w1),
              d1)))"
proof -
  have "ParseIP l (req_IP req)"
    using assms by (simp add: validate_Struct_Nil_iff)
  then show ?thesis
    using assms by (simp add: CreateAuditLog_def validateIP_def resolved_status_def Let_def)
qed

text \<open>What a successful creation means, in one place.\<close>

lemma CreateAuditLog_Inr:
  assumes "CreateAuditLog s l req w d = (Inr a, w', d')"
  shows "validate_Struct l req = []"
    and "\<not> (Enabled (Audit (config s)) \<and>
         \<not> IsValidStatus (Audit (config s)) (resolved_status (Audit (config s)) req))"
    and "a = (new_AuditLog l req (resolved_status (Audit (config s)) req))
               \<lparr>ID := uuid_String (uuids w (draws w)), Timestamp := clock w (reads w),
                CreatedAt := clock w (Suc (reads w)), UpdatedAt := clock w (Suc (Suc (reads w)))\<rparr>"
    and "w' = notification_task s l a (logger Info ''Audit log created successfully''
               (w\<lparr>reads := Suc (Suc (Suc (reads w))), draws := Suc (draws w)\<rparr>))"
    and "\<exists>metaJSON. Marshal l (req_Meta req) = Some metaJSON \<and>
           \<not> refuses d (INSERT insert_columns (insert_args a metaJSON)) \<and>
           d' = d\<lparr>table := table d @ [insert_row insert_columns (insert_args a metaJSON)]\<rparr>"
proof -
  show v: "validate_Struct l req = []"
    using assms CreateAuditLog_invalid [of l req s w d] by (cases "validate_Struct l req = []") auto
  let ?st = "resolved_status (Audit (config s)) req"
  obtain res a1 w1 d1 where c: "Create l (new_AuditLog l req ?st) w d = (res, a1, w1, d1)"
    by (cases "Create l (new_AuditLog l req ?st) w d") auto
  show ok: "\<not> (Enabled (Audit (config s)) \<and> \<not> IsValidStatus (Audit (config s)) ?st)"
    using assms unfolding CreateAuditLog_valid [OF v] by (auto split: if_splits)
  have r: "res = None \<and> a1 = a \<and> d1 = d' \<and>
           w' = notification_task s l a (logger Info ''Audit log created successfully'' w1)"
    using assms ok unfolding CreateAuditLog_valid [OF v] c by (cases res) auto
  show "a = (new_AuditLog l req ?st)
               \<lparr>ID := uuid_String (uuids w (draws w)), Timestamp := clock w (reads w),
                CreatedAt := clock w (Suc (reads w)), UpdatedAt := clock w (Suc (Suc (reads w)))\<rparr>"
    using Create_result(1) [OF c] r by simp
  show "w' = notification_task s l a (logger Info ''Audit log created successfully''
               (w\<lparr>reads := Suc (Suc (Suc (reads w))), draws := Suc (draws w)\<rparr>))"
    using Create_result(2) [OF c] r by simp
  show "\<exists>metaJSON. Marshal l (req_Meta req) = Some metaJSON \<and>
           \<not> refuses d (INSERT insert_columns (insert_args a metaJSON)) \<and>
           d' = d\<lparr>table := table d @ [insert_row insert_columns (insert_args a metaJSON)]\<rparr>"
    using Create_result(4) [OF c] r by (simp add: new_AuditLog_def)
qed

lemma length_hex: "length (hex k n) = k"
  by (induction k arbitrary: n) simp_all

lemma length_uuid_String: "length (uuid_String u) = 36"
  by (simp add: uuid_String_def length_hex)

lemma dotted_quad_example: "dotted_quad ''192.168.1.100''"
  by (simp add: dotted_quad_def octet_def digit_def)

lemma not_dotted_quad_example: "\<not> dotted_quad ''not-an-ip''"
  by (simp add: dotted_quad_def octet_def digit_def)

lemma ToUpper_post: "ToUpper l ''post'' = ''POST''" "ToUpper l ''POST'' = ''POST''"
  by (simp_all add: ToUpper_def isASCII_def upperByte_def char_of_eq_iff)

lemma validate_request0: "validate_Struct stub_lib request0 = []"
  by (simp add: validate_Struct_Nil_iff request0_def request_post_lower_def stub_lib_def
      dotted_quad_example)

lemma validate_request_post_lower:
  "validate_Struct stub_lib request_post_lower =
     [(''Method'', oneof [''GET'', ''POST'', ''PUT'', ''DELETE'', ''PATCH''])]"
  by (simp add: validate_Struct_def request_tags_def List.map_filter_def request_post_lower_def
      stub_lib_def dotted_quad_example)

lemma validate_request_bad_ip: "validate_Struct stub_lib request_bad_ip = [(''IP'', ip)]"
  by (simp add: validate_Struct_def request_tags_def List.map_filter_def request_bad_ip_def
      request0_def request_post_lower_def stub_lib_def not_dotted_quad_example)

lemma new_AuditLog_request0:
  "new_AuditLog stub_lib request0 ''pending'' =
     created0\<lparr>ID := [], Timestamp := 0, CreatedAt := 0, UpdatedAt := 0\<rparr>"
  by (simp add: new_AuditLog_def request0_def request_post_lower_def created0_def ToUpper_post)

lemma Create_request0:
  "Create stub_lib (new_AuditLog stub_lib request0 ''pending'') world0 db0 =
     (None, created0, world0\<lparr>reads := 3, draws := 1\<rparr>,
      db0\<lparr>table := [insert_row insert_columns (insert_args created0 ''null'')]\<rparr>)"
  by (simp add: Create_eq new_AuditLog_request0 Let_def)
     (simp add: created0_def stub_lib_def world0_def db0_def numeral_3_eq_3)

lemma resolved_request0: "resolved_status audit0 request0 = ''pending''"
  by (simp add: resolved_status_def request0_def request_post_lower_def audit0_def)

lemma valid_pending: "IsValidStatus audit0 ''pending''"
  by (simp add: IsValidStatus_def audit0_def)

lemma CreateAuditLog_request0:
  "CreateAuditLog service0 stub_lib request0 world0 db0 =
     (Inr created0,
      logger Info ''Audit log created successfully'' (world0\<lparr>reads := 3, draws := 1\<rparr>),
      db0\<lparr>table := [insert_row insert_columns (insert_args created0 ''null'')]\<rparr>)"
proof -
  have cfg: "Audit (config service0) = audit0" "notificationService service0 = None"
    by (simp_all add: service0_def)
  show ?thesis
    unfolding CreateAuditLog_valid [OF validate_request0] cfg resolved_request0
    by (simp add: valid_pending Create_request0 notification_task_def cfg)
qed

lemma IP_field_error:
  assumes "\<not> ParseIP l (req_IP req)"
  shows "(''IP'', if req_IP req = [] then required else ip) \<in> set (validate_Struct l req)"
  using assms
  by (simp add: validate_Struct_def request_tags_def List.map_filter_def)

text \<open>
  Claim C4, as amended. A create request whose IP address does not parse fails in the
  structural validation: the error is the validation error listing the violated fields, the
  field \<open>IP\<close> among them, and not the error of the explicit IP check; the database is the one
  before the call and neither an identifier is drawn nor the clock read, as every call of the
  repository's \<open>Create\<close> would do.
\<close>

theorem create_rejects_bad_ip_in_validation:
  assumes "\<not> ParseIP l (req_IP req)"
  shows "CreateAuditLog s l req w d =
           (Inl (ValidationFailed (validate_Struct l req)),
            logger Error ''Validation failed for audit log creation'' w, d) \<and>
         (''IP'', if req_IP req = [] then required else ip) \<in> set (validate_Struct l req) \<and>
         classify (ValidationFailed (validate_Struct l req)) = ValidationError \<and>
         draws (logger Error ''Validation failed for audit log creation'' w) = draws w \<and>
         reads (logger Error ''Validation failed for audit log creation'' w) = reads w"
proof -
  have "validate_Struct l req \<noteq> []"
    using IP_field_error [OF assms] by auto
  then show ?thesis
    using IP_field_error [OF assms] by (simp add: CreateAuditLog_invalid logger_def)
qed

theorem create_rejects_bad_ip_in_validation_witness:
  "\<not> ParseIP stub_lib (req_IP request_bad_ip) \<and>
   CreateAuditLog service0 stub_lib request_bad_ip world0 db0 =
     (Inl (ValidationFailed [(''IP'', ip)]),
      logger Error ''Validation failed for audit log creation'' world0, db0) \<and>
   classify (ValidationFailed [(''IP'', ip)]) = ValidationError"
proof -
  have h: "\<not> ParseIP stub_lib (req_IP request_bad_ip)"
    by (simp add: stub_lib_def request_bad_ip_def not_dotted_quad_example)
  show ?thesis
    using h create_rejects_bad_ip_in_validation [OF h, of service0 world0 db0]
    by (simp add: validate_request_bad_ip)
qed

text \<open>
  The claim as stated fails: the request with the IP address \<open>not-an-ip\<close> is rejected with a
  validation error, which is not an \<open>InvalidInputError\<close>.
\<close>

theorem bad_ip_is_not_invalid_input:
  "\<not> ParseIP stub_lib (req_IP request_bad_ip) \<and>
   fst (CreateAuditLog service0 stub_lib request_bad_ip world0 db0) =
     Inl (ValidationFailed [(''IP'', ip)]) \<and>
   classify (ValidationFailed [(''IP'', ip)]) \<noteq> InvalidInputError"
  by (simp add: stub_lib_def request_bad_ip_def not_dotted_quad_example
      CreateAuditLog_invalid validate_request_bad_ip [unfolded request_bad_ip_def stub_lib_def])

text \<open>
  Claim C1, at its concrete request. The request with method \<open>post\<close> is rejected by the
  structural validation, whose \<open>oneof\<close> rule compares the method as it was sent, before the
  method is upper-cased; the same request with method \<open>POST\<close> is accepted and stored with
  method \<open>POST\<close>.
\<close>

theorem create_lowercase_method_rejected:
  "(\<forall>l. ToUpper l (req_Method request_post_lower) = ''POST'') \<and>
   request0 = request_post_lower\<lparr>req_Method := ''POST''\<rparr> \<and>
   fst (CreateAuditLog service0 stub_lib request0 world0 db0) = Inr created0 \<and>
   Method created0 = ''POST'' \<and>
   CreateAuditLog service0 stub_lib request_post_lower world0 db0 =
     (Inl (ValidationFailed [(''Method'', oneof [''GET'', ''POST'', ''PUT'', ''DELETE'', ''PATCH''])]),
      logger Error ''Validation failed for audit log creation'' world0, db0)"
proof -
  have "\<forall>l. ToUpper l (req_Method request_post_lower) = ''POST''"
    by (simp add: request_post_lower_def ToUpper_post)
  moreover have "request0 = request_post_lower\<lparr>req_Method := ''POST''\<rparr>"
    by (simp add: request0_def)
  moreover have "Method created0 = ''POST''"
    by (simp add: created0_def)
  ultimately show ?thesis
    by (simp add: CreateAuditLog_request0 CreateAuditLog_invalid validate_request_post_lower)
qed

text \<open>
  Claim C5, as amended. The record returned by a successful creation has the identifier
  drawn for it, 36 characters long, and its three timestamps are three successive readings
  of the clock, in the order event, creation, last update: they are set whenever the clock
  never reads the zero time, and the last-update timestamp equals the creation timestamp
  exactly when the clock gave the same reading twice.
\<close>

theorem create_assigns_id_and_timestamps:
  assumes "CreateAuditLog s l req w d = (Inr a, w', d')"
  shows "ID a = uuid_String (uuids w (draws w)) \<and> length (ID a) = 36 \<and> ID a \<noteq> [] \<and>
         Timestamp a = clock w (reads w) \<and>
         CreatedAt a = clock w (reads w + 1) \<and>
         UpdatedAt a = clock w (reads w + 2) \<and>
         ((\<forall>n. clock w n \<noteq> 0) \<longrightarrow>
            \<not> IsZero (Timestamp a) \<and> \<not> IsZero (CreatedAt a) \<and> \<not> IsZero (UpdatedAt a)) \<and>
         (UpdatedAt a = CreatedAt a \<longleftrightarrow> clock w (reads w + 2) = clock w (reads w + 1))"
proof -
  have id: "ID a = uuid_String (uuids w (draws w))"
    and t: "Timestamp a = clock w (reads w)" "CreatedAt a = clock w (reads w + 1)"
      "UpdatedAt a = clock w (reads w + 2)"
    using CreateAuditLog_Inr(3) [OF assms] by simp_all
  have "length (ID a) = 36"
    by (simp add: id length_uuid_String)
  then have "ID a \<noteq> []" "length (ID a) = 36"
    by auto
  then show ?thesis
    using id t by (simp add: IsZero_def)
qed

theorem create_assigns_id_and_timestamps_witness:
  "CreateAuditLog service0 stub_lib request0 world0 db0 =
     (Inr created0,
      logger Info ''Audit log created successfully'' (world0\<lparr>reads := 3, draws := 1\<rparr>),
      db0\<lparr>table := [insert_row insert_columns (insert_args created0 ''null'')]\<rparr>) \<and>
   ID created0 = uuid_String 7 \<and> length (ID created0) = 36 \<and>
   Timestamp created0 = 1000 \<and> CreatedAt created0 = 1001 \<and> UpdatedAt created0 = 1002 \<and>
   \<not> IsZero (Timestamp created0) \<and> \<not> IsZero (CreatedAt created0) \<and> \<not> IsZero (UpdatedAt created0)"
proof -
  have nz: "\<forall>n. clock world0 n \<noteq> 0"
    by (simp add: world0_def)
  have c: "uuids world0 (draws world0) = 7" "clock world0 (reads world0) = 1000"
    "clock world0 (reads world0 + 1) = 1001" "clock world0 (reads world0 + 2) = 1002"
    by (simp_all add: world0_def)
  show ?thesis
    using create_assigns_id_and_timestamps [OF CreateAuditLog_request0] nz CreateAuditLog_request0
    unfolding c
    by (simp add: length_uuid_String IsZero_def)
qed

text \<open>
  The claim as stated fails: with a clock that advances between two readings, the record
  created from a valid request has a last-update timestamp after its creation timestamp.
\<close>

theorem created_at_differs_from_updated_at:
  "fst (CreateAuditLog service0 stub_lib request0 world0 db0) = Inr created0 \<and>
   CreatedAt created0 = 1001 \<and> UpdatedAt created0 = 1002 \<and>
   UpdatedAt created0 \<noteq> CreatedAt created0"
  by (simp add: CreateAuditLog_request0 created0_def)

lemma insert_row_status:
  "insert_row insert_columns (insert_args a m) c_status = Text (Status a)"
  by (simp add: insert_row_def insert_columns_def insert_args_def)

lemma IsValidStatus_iff:
  "IsValidStatus c status \<longleftrightarrow> (Enabled c \<longrightarrow> status \<in> set (StatusValues c))"
  by (simp add: IsValidStatus_def status_loop_iff)

lemma CreateAuditLog_success:
  assumes "validate_Struct l req = []"
    and "Enabled (Audit (config s)) \<longrightarrow>
           resolved_status (Audit (config s)) req \<in> set (StatusValues (Audit (config s)))"
    and "Marshal l (req_Meta req) = Some metaJSON"
    and "a = (new_AuditLog l req (resolved_status (Audit (config s)) req))
               \<lparr>ID := uuid_String (uuids w (draws w)), Timestamp := clock w (reads w),
                CreatedAt := clock w (Suc (reads w)), UpdatedAt := clock w (Suc (Suc (reads w)))\<rparr>"
    and "\<not> refuses d (INSERT insert_columns (insert_args a metaJSON))"
  shows "CreateAuditLog s l req w d =
     (Inr a,
      notification_task s l a (logger Info ''Audit log created successfully''
        (w\<lparr>reads := Suc (Suc (Suc (reads w))), draws := Suc (draws w)\<rparr>)),
      d\<lparr>table := table d @ [insert_row insert_columns (insert_args a metaJSON)]\<rparr>)"
proof -
  have m: "Marshal l (Meta (new_AuditLog l req (resolved_status (Audit (config s)) req))) =
           Some metaJSON"
    using assms(3) by (simp add: new_AuditLog_def)
  show ?thesis
    unfolding CreateAuditLog_valid [OF assms(1)] Create_eq Let_def m
    using assms(2,5) unfolding assms(4)
    by (simp add: IsValidStatus_iff)
qed

text \<open>
  Claim C3. The status check is the step of \<open>CreateAuditLog\<close> after the structural
  validation, so a request reaches it when it violates no rule of that validation.
  (1) A creation that succeeds for a request with empty status returns and stores the
  configured default status. (2) With the vocabulary enabled and the resolved status outside
  it, the creation fails and leaves the database as it was, no identifier drawn; for a
  request that reaches the status check the error is the invalid-status error carrying the
  status and the permitted values joined by commas, an \<open>InvalidInputError\<close>. (3) With the
  vocabulary disabled, every status is valid and no creation fails with the invalid-status
  error; a request that reaches the status check is created with whatever status it
  resolves to when the store accepts it, that is, when its metadata can be encoded and the
  backend refuses no statement.
\<close>

theorem create_status_rules:
  "(\<forall>a w' d'. req_Status req = [] \<and> CreateAuditLog s l req w d = (Inr a, w', d') \<longrightarrow>
      Status a = DefaultStatus (Audit (config s)) \<and>
      last (table d') c_status = Text (DefaultStatus (Audit (config s)))) \<and>
   (Enabled (Audit (config s)) \<and>
    resolved_status (Audit (config s)) req \<notin> set (StatusValues (Audit (config s))) \<longrightarrow>
      (\<exists>e. fst (CreateAuditLog s l req w d) = Inl e) \<and>
      snd (snd (CreateAuditLog s l req w d)) = d \<and>
      draws (fst (snd (CreateAuditLog s l req w d))) = draws w \<and>
      (validate_Struct l req = [] \<longrightarrow>
         fst (CreateAuditLog s l req w d) =
           Inl (InvalidStatus (resolved_status (Audit (config s)) req)
                  (Join (StatusValues (Audit (config s))) '', '')) \<and>
         classify (InvalidStatus (resolved_status (Audit (config s)) req)
                  (Join (StatusValues (Audit (config s))) '', '')) = InvalidInputError)) \<and>
   (\<not> Enabled (Audit (config s)) \<and> validate_Struct l req = [] \<and>
    (\<exists>metaJSON. Marshal l (req_Meta req) = Some metaJSON) \<and> (\<forall>st. \<not> refuses d st) \<longrightarrow>
      (\<exists>a. fst (CreateAuditLog s l req w d) = Inr a \<and>
           Status a = resolved_status (Audit (config s)) req)) \<and>
   (\<not> Enabled (Audit (config s)) \<longrightarrow>
      (\<forall>status. IsValidStatus (Audit (config s)) status) \<and>
      (\<forall>status permitted.
         fst (CreateAuditLog s l req w d) \<noteq> Inl (InvalidStatus status permitted)))"
proof (intro conjI allI impI)
  fix a w' d'
  assume h: "req_Status req = [] \<and> CreateAuditLog s l req w d = (Inr a, w', d')"
  then have c: "CreateAuditLog s l req w d = (Inr a, w', d')" by simp
  have st: "Status a = DefaultStatus (Audit (config s))"
    using CreateAuditLog_Inr(3) [OF c] h by (simp add: new_AuditLog_def resolved_status_def)
  then show "Status a = DefaultStatus (Audit (config s))" .
  from CreateAuditLog_Inr(5) [OF c] obtain metaJSON where
    "d' = d\<lparr>table := table d @ [insert_row insert_columns (insert_args a metaJSON)]\<rparr>"
    by auto
  then show "last (table d') c_status = Text (DefaultStatus (Audit (config s)))"
    by (simp add: insert_row_status st)
next
  assume h: "Enabled (Audit (config s)) \<and>
    resolved_status (Audit (config s)) req \<notin> set (StatusValues (Audit (config s)))"
  then have bad: "Enabled (Audit (config s)) \<and>
      \<not> IsValidStatus (Audit (config s)) (resolved_status (Audit (config s)) req)"
    by (simp add: IsValidStatus_iff)
  have both: "(\<exists>e. fst (CreateAuditLog s l req w d) = Inl e) \<and>
      snd (snd (CreateAuditLog s l req w d)) = d \<and>
      draws (fst (snd (CreateAuditLog s l req w d))) = draws w"
  proof (cases "validate_Struct l req = []")
    case True
    then show ?thesis
      using bad by (simp add: CreateAuditLog_valid logger_def)
  next
    case False
    then show ?thesis
      by (simp add: CreateAuditLog_invalid logger_def)
  qed
  from both show "\<exists>e. fst (CreateAuditLog s l req w d) = Inl e" by simp
  from both show "snd (snd (CreateAuditLog s l req w d)) = d" by simp
  from both show "draws (fst (snd (CreateAuditLog s l req w d))) = draws w" by simp
  {
    assume v: "validate_Struct l req = []"
    show "fst (CreateAuditLog s l req w d) =
           Inl (InvalidStatus (resolved_status (Audit (config s)) req)
                  (Join (StatusValues (Audit (config s))) '', ''))"
      using bad by (simp add: CreateAuditLog_valid [OF v])
  }
  show "classify (InvalidStatus (resolved_status (Audit (config s)) req)
                  (Join (StatusValues (Audit (config s))) '', '')) = InvalidInputError"
    by simp
next
  assume h: "\<not> Enabled (Audit (config s)) \<and> validate_Struct l req = [] \<and>
    (\<exists>metaJSON. Marshal l (req_Meta req) = Some metaJSON) \<and> (\<forall>st. \<not> refuses d st)"
  then obtain metaJSON where m: "Marshal l (req_Meta req) = Some metaJSON" by auto
  define a where "a = (new_AuditLog l req (resolved_status (Audit (config s)) req))
               \<lparr>ID := uuid_String (uuids w (draws w)), Timestamp := clock w (reads w),
                CreatedAt := clock w (Suc (reads w)), UpdatedAt := clock w (Suc (Suc (reads w)))\<rparr>"
  have "fst (CreateAuditLog s l req w d) = Inr a"
    using CreateAuditLog_success [of l req s metaJSON a w d] h m a_def by simp
  moreover have "Status a = resolved_status (Audit (config s)) req"
    by (simp add: a_def new_AuditLog_def)
  ultimately show "\<exists>a. fst (CreateAuditLog s l req w d) = Inr a \<and>
           Status a = resolved_status (Audit (config s)) req"
    by blast
next
  fix status
  assume "\<not> Enabled (Audit (config s))"
  then show "IsValidStatus (Audit (config s)) status"
    by (simp add: IsValidStatus_iff)
next
  fix status permitted
  assume off: "\<not> Enabled (Audit (config s))"
  show "fst (CreateAuditLog s l req w d) \<noteq> Inl (InvalidStatus status permitted)"
  proof (cases "validate_Struct l req = []")
    case True
    show ?thesis
      unfolding CreateAuditLog_valid [OF True]
      using off by (simp split: prod.splits option.splits)
  next
    case False
    then show ?thesis
      by (simp add: CreateAuditLog_invalid)
  qed
qed

lemma validate_request_bad_status: "validate_Struct stub_lib request_bad_status = []"
  by (simp add: validate_Struct_Nil_iff request_bad_status_def request0_def
      request_post_lower_def stub_lib_def dotted_quad_example)

lemma resolved_bad_status:
  "resolved_status c request_bad_status = ''bogus''" "req_Status request0 = []"
  "req_Meta request_bad_status = None"
  by (simp_all add: resolved_status_def request_bad_status_def request0_def
      request_post_lower_def)

theorem create_status_rules_witness:
  "req_Status request0 = [] \<and>
   CreateAuditLog service0 stub_lib request0 world0 db0 =
     (Inr created0,
      logger Info ''Audit log created successfully'' (world0\<lparr>reads := 3, draws := 1\<rparr>),
      db0\<lparr>table := [insert_row insert_columns (insert_args created0 ''null'')]\<rparr>) \<and>
   Status created0 = ''pending'' \<and>
   last (table (db0\<lparr>table := [insert_row insert_columns (insert_args created0 ''null'')]\<rparr>))
     c_status = Text ''pending'' \<and>
   fst (CreateAuditLog service0 stub_lib request_bad_status world0 db0) =
     Inl (InvalidStatus ''bogus'' ''pending, processing, completed, failed, archived'') \<and>
   snd (snd (CreateAuditLog service0 stub_lib request_bad_status world0 db0)) = db0 \<and>
   (\<exists>a. fst (CreateAuditLog service_unchecked stub_lib request_bad_status world0 db0) = Inr a \<and>
        Status a = ''bogus'') \<and>
   IsValidStatus (Audit (config service_unchecked)) ''bogus''"
proof -
  have cfg: "Audit (config service0) = audit0"
    "Audit (config service_unchecked) = audit0\<lparr>Enabled := False\<rparr>"
    by (simp_all add: service0_def service_unchecked_def)
  have a0: "Enabled audit0" "DefaultStatus audit0 = ''pending''"
    "StatusValues audit0 = [''pending'', ''processing'', ''completed'', ''failed'', ''archived'']"
    by (simp_all add: audit0_def)
  have m: "Marshal stub_lib None = Some ''null''"
    by (simp add: stub_lib_def)
  have r: "\<forall>st. \<not> refuses db0 st"
    by (simp add: db0_def)
  show ?thesis
    using create_status_rules [of request0 service0 stub_lib world0 db0]
      create_status_rules [of request_bad_status service0 stub_lib world0 db0]
      create_status_rules [of request_bad_status service_unchecked stub_lib world0 db0]
      CreateAuditLog_request0 validate_request_bad_status m r
    unfolding cfg resolved_bad_status
    by (simp add: a0)
qed

text \<open>
  Claim C2. When a creation returns a record, it returns the same record and leaves the same
  database whatever the notification service is (none, or any configuration and senders):
  the database is the one before the call with the record's row appended. When the
  notification service reports failures, the only trace is the log entry written by the
  task.
\<close>

theorem notification_failure_not_propagated:
  assumes "CreateAuditLog s l req w d = (Inr a, w', d')"
  shows "(\<forall>n. fst (CreateAuditLog (s\<lparr>notificationService := n\<rparr>) l req w d) = Inr a \<and>
              snd (snd (CreateAuditLog (s\<lparr>notificationService := n\<rparr>) l req w d)) = d') \<and>
         (\<exists>metaJSON. Marshal l (req_Meta req) = Some metaJSON \<and>
            d' = d\<lparr>table := table d @ [insert_row insert_columns (insert_args a metaJSON)]\<rparr>) \<and>
         (\<forall>ns errs wn.
            notificationService s = Some ns \<and>
            SendNotification ns l a
              (logger Info ''Audit log created successfully''
                 (w\<lparr>reads := Suc (Suc (Suc (reads w))), draws := Suc (draws w)\<rparr>)) = (Some errs, wn)
            \<longrightarrow> w' = logger Error ''Failed to send notification'' wn)"
proof (intro conjI allI impI)
  note r = CreateAuditLog_Inr [OF assms]
  from r(5) obtain metaJSON where
    m: "Marshal l (req_Meta req) = Some metaJSON" and
    nr: "\<not> refuses d (INSERT insert_columns (insert_args a metaJSON))" and
    d': "d' = d\<lparr>table := table d @ [insert_row insert_columns (insert_args a metaJSON)]\<rparr>"
    by auto
  show "\<exists>metaJSON. Marshal l (req_Meta req) = Some metaJSON \<and>
            d' = d\<lparr>table := table d @ [insert_row insert_columns (insert_args a metaJSON)]\<rparr>"
    using m d' by blast
  fix n
  have ok: "Enabled (Audit (config (s\<lparr>notificationService := n\<rparr>))) \<longrightarrow>
        resolved_status (Audit (config (s\<lparr>notificationService := n\<rparr>))) req
          \<in> set (StatusValues (Audit (config (s\<lparr>notificationService := n\<rparr>))))"
    using r(2) by (simp add: IsValidStatus_iff)
  have a: "a = (new_AuditLog l req (resolved_status (Audit (config (s\<lparr>notificationService := n\<rparr>))) req))
               \<lparr>ID := uuid_String (uuids w (draws w)), Timestamp := clock w (reads w),
                CreatedAt := clock w (Suc (reads w)), UpdatedAt := clock w (Suc (Suc (reads w)))\<rparr>"
    using r(3) by simp
  have eq: "CreateAuditLog (s\<lparr>notificationService := n\<rparr>) l req w d =
     (Inr a,
      notification_task (s\<lparr>notificationService := n\<rparr>) l a
        (logger Info ''Audit log created successfully''
          (w\<lparr>reads := Suc (Suc (Suc (reads w))), draws := Suc (draws w)\<rparr>)),
      d\<lparr>table := table d @ [insert_row insert_columns (insert_args a metaJSON)]\<rparr>)"
    by (rule CreateAuditLog_success [OF r(1) ok m a nr])
  show "fst (CreateAuditLog (s\<lparr>notificationService := n\<rparr>) l req w d) = Inr a"
    by (simp add: eq)
  show "snd (snd (CreateAuditLog (s\<lparr>notificationService := n\<rparr>) l req w d)) = d'"
    by (simp add: eq d')
next
  fix ns errs wn
  assume h: "notificationService s = Some ns \<and>
            SendNotification ns l a
              (logger Info ''Audit log created successfully''
                 (w\<lparr>reads := Suc (Suc (Suc (reads w))), draws := Suc (draws w)\<rparr>)) = (Some errs, wn)"
  show "w' = logger Error ''Failed to send notification'' wn"
    using CreateAuditLog_Inr(4) [OF assms] h by (simp add: notification_task_def)
qed

lemma shouldNotifyByEmail_created0: "\<not> shouldNotifyByEmail l created0"
  by (simp add: shouldNotifyByEmail_def criticalEvents_def created0_def ToUpper_def
      isASCII_def upperByte_def)

lemma SendNotification_failing_created0:
  "SendNotification notifier_failing stub_lib created0 w =
     (Some [(WebhookChannel, SendWebhookFailed ''http://hook-1'' ''refused'')],
      logger Error ''Notification failed''
        ((logger Info ''Slack notification sent successfully''
            (w\<lparr>tasks := tasks w @ [SlackChannel], outbox := outbox w @ [SlackTo ''#audit-alerts'']\<rparr>))
         \<lparr>tasks := tasks w @ [SlackChannel, WebhookChannel],
           outbox := outbox w @ [SlackTo ''#audit-alerts'', WebhookTo ''http://hook-1'']\<rparr>))"
proof -
  have env: "Environment created0 = ''production''"
    by (simp add: created0_def)
  have cfg: "ns_config notifier_failing = notify0" "slackSender notifier_failing = Some ok_sender"
    "webhookSender notifier_failing = Some failing_sender"
    by (simp_all add: notifier_failing_def)
  show ?thesis
    by (simp add: SendNotification_def shouldSendNotification_def shouldNotifyByEmail_created0
        shouldNotifyBySlack_def shouldNotifyByWebhook_def env cfg notify0_def dispatch_def
        sendSlackNotification_def sendWebhookNotification_def ok_sender_def failing_sender_def
        logger_def)
qed

lemma CreateAuditLog_failing_request0:
  "CreateAuditLog service_failing stub_lib request0 world0 db0 =
     (Inr created0,
      notification_task service_failing stub_lib created0
        (logger Info ''Audit log created successfully'' (world0\<lparr>reads := 3, draws := 1\<rparr>)),
      db0\<lparr>table := [insert_row insert_columns (insert_args created0 ''null'')]\<rparr>)"
proof -
  have cfg: "Audit (config service_failing) = audit0"
    by (simp add: service_failing_def service0_def)
  show ?thesis
    unfolding CreateAuditLog_valid [OF validate_request0] cfg resolved_request0
    by (simp add: valid_pending Create_request0)
qed

theorem notification_failure_not_propagated_witness:
  "notificationService service_failing = Some notifier_failing \<and>
   fst (SendNotification notifier_failing stub_lib created0
          (logger Info ''Audit log created successfully'' (world0\<lparr>reads := 3, draws := 1\<rparr>))) =
     Some [(WebhookChannel, SendWebhookFailed ''http://hook-1'' ''refused'')] \<and>
   fst (CreateAuditLog service_failing stub_lib request0 world0 db0) = Inr created0 \<and>
   snd (snd (CreateAuditLog service_failing stub_lib request0 world0 db0)) =
     db0\<lparr>table := [insert_row insert_columns (insert_args created0 ''null'')]\<rparr> \<and>
   last (logs (fst (snd (CreateAuditLog service_failing stub_lib request0 world0 db0)))) =
     (Error, ''Failed to send notification'') \<and>
   fst (CreateAuditLog (service_failing\<lparr>notificationService := None\<rparr>) stub_lib request0 world0 db0) =
     Inr created0 \<and>
   snd (snd (CreateAuditLog (service_failing\<lparr>notificationService := None\<rparr>) stub_lib request0
              world0 db0)) =
     db0\<lparr>table := [insert_row insert_columns (insert_args created0 ''null'')]\<rparr>"
proof -
  have ns: "notificationService service_failing = Some notifier_failing"
    by (simp add: service_failing_def)
  have w: "world0\<lparr>reads := Suc (Suc (Suc (reads world0))), draws := Suc (draws world0)\<rparr> =
           world0\<lparr>reads := 3, draws := 1\<rparr>"
    by (simp add: world0_def numeral_3_eq_3)
  note t = notification_failure_not_propagated [OF CreateAuditLog_failing_request0]
  have all: "\<forall>n. fst (CreateAuditLog (service_failing\<lparr>notificationService := n\<rparr>) stub_lib
                       request0 world0 db0) = Inr created0 \<and>
       snd (snd (CreateAuditLog (service_failing\<lparr>notificationService := n\<rparr>) stub_lib request0
                   world0 db0)) =
       db0\<lparr>table := [insert_row insert_columns (insert_args created0 ''null'')]\<rparr>"
    using t by blast
  have logged: "notification_task service_failing stub_lib created0
        (logger Info ''Audit log created successfully'' (world0\<lparr>reads := 3, draws := 1\<rparr>)) =
      logger Error ''Failed to send notification''
        (snd (SendNotification notifier_failing stub_lib created0
          (logger Info ''Audit log created successfully'' (world0\<lparr>reads := 3, draws := 1\<rparr>))))"
    using t ns unfolding w
    by (simp add: SendNotification_failing_created0)
  have lastlog: "last (logs (notification_task service_failing stub_lib created0
        (logger Info ''Audit log created successfully'' (world0\<lparr>reads := 3, draws := 1\<rparr>)))) =
      (Error, ''Failed to send notification'')"
    unfolding logged by (simp add: logger_def)
  show ?thesis
    using all [rule_format, of None] ns lastlog
    by (simp add: CreateAuditLog_failing_request0 SendNotification_failing_created0)
qed

section \<open>Updating the status\<close>


lemma filter_empty_length: "length (filter P xs) = 0 \<longleftrightarrow> (\<forall>x \<in> set xs. \<not> P x)"
  by (simp add: filter_empty_conv)

















end
